theory Spec2Isabelle
  imports Main "HOL-Library.Word"
begin

unbundle bit_operations_syntax

section \<open>The NTVDM emulator core (subsystems/ntvdm/emulator.c)\<close>

subsection \<open>Machine types\<close>

type_synonym byte = "8 word"     \<comment> \<open>BYTE, UCHAR\<close>
type_synonym word16 = "16 word"  \<comment> \<open>WORD, USHORT\<close>
type_synonym ulong = "32 word"   \<comment> \<open>ULONG, DWORD\<close>

text \<open>
  The macros of emulator.h and bios/bios.h that emulator.c uses are not part of the
  translated file; they are parameters of the model. \<open>DBG\<close> says whether \<open>ASSERT\<close>
  is compiled in (a debug build).
\<close>

record constants =
  MAX_ADDRESS :: ulong
  ROM_AREA_START :: ulong
  ROM_AREA_END :: ulong
  STACK_IP :: nat
  STACK_CS :: nat
  DBG :: bool

text \<open>
  The video adapter (hardware/vga.c) is reached through four entry points. The adapter's
  own state is an abstract type \<open>'v\<close>. \<open>VgaReadMemory\<close> receives the address, the
  present contents of the destination (\<open>Size\<close> bytes of the arena) and the size, and
  returns the bytes it leaves there; \<open>VgaWriteMemory\<close> receives the address, the source
  bytes and the size.
\<close>

record 'v vga_driver =
  VgaGetVideoBaseAddress :: "'v \<Rightarrow> ulong"
  VgaGetVideoLimitAddress :: "'v \<Rightarrow> ulong"
  VgaReadMemory :: "'v \<Rightarrow> ulong \<Rightarrow> byte list \<Rightarrow> ulong \<Rightarrow> byte list \<times> 'v"
  VgaWriteMemory :: "'v \<Rightarrow> ulong \<Rightarrow> byte list \<Rightarrow> ulong \<Rightarrow> 'v"

text \<open>Every call of a device entry point is recorded, with its address and size.\<close>

datatype vga_call =
  VgaReadCall ulong ulong
  | VgaWriteCall ulong ulong "byte list"

text \<open>The arguments handed to \<open>DisplayMessage\<close> by \<open>EmulatorException\<close>.\<close>

record report =
  ReportName :: string
  ReportSegment :: word16
  ReportOffset :: word16
  ReportOpcode :: "byte list"

text \<open>
  The file-scope variables, together with the adapter's state, the log of device calls
  and the messages shown. \<open>BaseAddress\<close> is \<open>None\<close> for \<open>NULL\<close>, otherwise the
  bytes of the block at their offsets; the block is \<open>MAX_ADDRESS\<close> bytes long.
\<close>

record ('c, 'v) emulator =
  EmulatorContext :: 'c
  BaseAddress :: "(nat \<Rightarrow> byte) option"
  VdmRunning :: bool
  A20Line :: bool
  Vga :: 'v
  VgaCalls :: "vga_call list"
  Messages :: "report list"

text \<open>
  C has no check on a pointer access. An access that leaves the block it was given is
  a fault of the host process, and a branch of the model.
\<close>

datatype fault =
  NullArena
  | ArenaOverrun
  | BufferOverrun
  | StackOverrun
  | TableOverrun
  | AssertionFailed

subsection \<open>Copying bytes\<close>

definition arena_load :: "(nat \<Rightarrow> byte) \<Rightarrow> nat \<Rightarrow> nat \<Rightarrow> byte list" where
  "arena_load m a n = map (\<lambda>i. m (a + i)) [0..<n]"

definition arena_store :: "(nat \<Rightarrow> byte) \<Rightarrow> nat \<Rightarrow> byte list \<Rightarrow> nat \<Rightarrow> byte" where
  "arena_store m a bs = (\<lambda>i. if a \<le> i \<and> i < a + length bs then bs ! (i - a) else m i)"

text \<open>\<open>RtlCopyMemory(Buffer, BaseAddress + Address, Size)\<close>\<close>

definition copy_from_arena ::
  "constants \<Rightarrow> ('c, 'v) emulator \<Rightarrow> ulong \<Rightarrow> byte list \<Rightarrow> ulong
     \<Rightarrow> fault + (('c, 'v) emulator \<times> byte list)" where
  "copy_from_arena k s Address Buffer Size =
     (case BaseAddress s of
        None \<Rightarrow> Inl NullArena
      | Some m \<Rightarrow>
          if length Buffer < unat Size then Inl BufferOverrun
          else if unat (MAX_ADDRESS k) < unat Address + unat Size then Inl ArenaOverrun
          else Inr (s, arena_load m (unat Address) (unat Size) @ drop (unat Size) Buffer))"

text \<open>\<open>RtlCopyMemory(BaseAddress + Address, Buffer, Size)\<close>\<close>

definition copy_to_arena ::
  "constants \<Rightarrow> ('c, 'v) emulator \<Rightarrow> ulong \<Rightarrow> byte list \<Rightarrow> ulong
     \<Rightarrow> fault + ('c, 'v) emulator" where
  "copy_to_arena k s Address Buffer Size =
     (case BaseAddress s of
        None \<Rightarrow> Inl NullArena
      | Some m \<Rightarrow>
          if length Buffer < unat Size then Inl BufferOverrun
          else if unat (MAX_ADDRESS k) < unat Address + unat Size then Inl ArenaOverrun
          else Inr (s\<lparr>BaseAddress :=
                 Some (arena_store m (unat Address) (take (unat Size) Buffer))\<rparr>))"

text \<open>
  \<open>VgaReadMemory(VgaAddress, BaseAddress + VgaAddress, ActualSize)\<close>: the adapter
  writes into the arena through the pointer.
\<close>

definition vga_read_to_arena ::
  "constants \<Rightarrow> 'v vga_driver \<Rightarrow> ('c, 'v) emulator \<Rightarrow> ulong \<Rightarrow> ulong
     \<Rightarrow> fault + ('c, 'v) emulator" where
  "vga_read_to_arena k vga s VgaAddress ActualSize =
     (case BaseAddress s of
        None \<Rightarrow> Inl NullArena
      | Some m \<Rightarrow>
          if unat (MAX_ADDRESS k) < unat VgaAddress + unat ActualSize then Inl ArenaOverrun
          else
            (case VgaReadMemory vga (Vga s) VgaAddress
                    (arena_load m (unat VgaAddress) (unat ActualSize)) ActualSize of
               (bs, v) \<Rightarrow>
                 Inr (s\<lparr>BaseAddress :=
                          Some (arena_store m (unat VgaAddress) (take (unat ActualSize) bs)),
                        Vga := v,
                        VgaCalls := VgaCalls s @ [VgaReadCall VgaAddress ActualSize]\<rparr>)))"

text \<open>
  \<open>VgaWriteMemory(VgaAddress, BaseAddress + VgaAddress, ActualSize)\<close>: the adapter
  reads the arena through the pointer.
\<close>

definition vga_write_from_arena ::
  "constants \<Rightarrow> 'v vga_driver \<Rightarrow> ('c, 'v) emulator \<Rightarrow> ulong \<Rightarrow> ulong
     \<Rightarrow> fault + ('c, 'v) emulator" where
  "vga_write_from_arena k vga s VgaAddress ActualSize =
     (case BaseAddress s of
        None \<Rightarrow> Inl NullArena
      | Some m \<Rightarrow>
          if unat (MAX_ADDRESS k) < unat VgaAddress + unat ActualSize then Inl ArenaOverrun
          else
            (let bs = arena_load m (unat VgaAddress) (unat ActualSize)
             in Inr (s\<lparr>Vga := VgaWriteMemory vga (Vga s) VgaAddress bs ActualSize,
                       VgaCalls := VgaCalls s @ [VgaWriteCall VgaAddress ActualSize bs]\<rparr>)))"

subsection \<open>The memory callbacks\<close>

definition EmulatorReadMemory ::
  "constants \<Rightarrow> 'v vga_driver \<Rightarrow> ('c, 'v) emulator \<Rightarrow> ulong \<Rightarrow> byte list \<Rightarrow> ulong
     \<Rightarrow> fault + (('c, 'v) emulator \<times> byte list)" where
  "EmulatorReadMemory k vga s Address0 Buffer Size =
     (let Address = (if \<not> A20Line s then Address0 AND NOT (push_bit 20 1) else Address0)
      in if MAX_ADDRESS k \<le> Address + Size then Inr (s, Buffer)
         else
           (case
              (if VgaGetVideoBaseAddress vga (Vga s) \<le> Address + Size
                    \<and> Address < VgaGetVideoLimitAddress vga (Vga s)
               then
                 (let VgaAddress = max Address (VgaGetVideoBaseAddress vga (Vga s));
                      ActualSize = min (Address + Size - 1) (VgaGetVideoLimitAddress vga (Vga s))
                                     - VgaAddress + 1
                  in vga_read_to_arena k vga s VgaAddress ActualSize)
               else Inr s) of
              Inl f \<Rightarrow> Inl f
            | Inr s1 \<Rightarrow> copy_from_arena k s1 Address Buffer Size))"

definition EmulatorWriteMemory ::
  "constants \<Rightarrow> 'v vga_driver \<Rightarrow> ('c, 'v) emulator \<Rightarrow> ulong \<Rightarrow> byte list \<Rightarrow> ulong
     \<Rightarrow> fault + ('c, 'v) emulator" where
  "EmulatorWriteMemory k vga s Address0 Buffer Size =
     (let Address = (if \<not> A20Line s then Address0 AND NOT (push_bit 20 1) else Address0)
      in if MAX_ADDRESS k \<le> Address + Size then Inr s
         else if ROM_AREA_START k \<le> Address + Size \<and> Address < ROM_AREA_END k then Inr s
         else
           (case copy_to_arena k s Address Buffer Size of
              Inl f \<Rightarrow> Inl f
            | Inr s1 \<Rightarrow>
                if VgaGetVideoBaseAddress vga (Vga s1) \<le> Address + Size
                     \<and> Address < VgaGetVideoLimitAddress vga (Vga s1)
                then
                  (let VgaAddress = max Address (VgaGetVideoBaseAddress vga (Vga s1));
                       ActualSize = min (Address + Size - 1) (VgaGetVideoLimitAddress vga (Vga s1))
                                      - VgaAddress + 1
                   in vga_write_from_arena k vga s1 VgaAddress ActualSize)
                else Inr s1))"

subsection \<open>Initialisation\<close>

text \<open>
  The CPU engine (Fast486) is consumed through its entry points; its context is an
  abstract type \<open>'c\<close>. \<open>setIF\<close> (registers.c) sets the interrupt flag of the context.
\<close>

record 'c cpu_engine =
  Fast486Initialize :: "'c \<Rightarrow> 'c"
  Fast486StepInto :: "'c \<Rightarrow> 'c"
  setIF :: "bool \<Rightarrow> 'c \<Rightarrow> 'c"

text \<open>
  \<open>HeapAlloc(GetProcessHeap(), HEAP_ZERO_MEMORY, MAX_ADDRESS)\<close>: whether the process
  heap can serve the request is the host's decision, an input of the model; a block that
  is returned is filled with zeros.
\<close>

definition HeapAlloc_zeroed :: "bool \<Rightarrow> nat \<Rightarrow> (nat \<Rightarrow> byte) option" where
  "HeapAlloc_zeroed available n = (if available then Some (\<lambda>i. 0) else None)"

text \<open>The initialisers of the file-scope variables.\<close>

definition initial_state :: "'c \<Rightarrow> 'v \<Rightarrow> ('c, 'v) emulator" where
  "initial_state c v =
     \<lparr>EmulatorContext = c, BaseAddress = None, VdmRunning = True, A20Line = False,
      Vga = v, VgaCalls = [], Messages = []\<rparr>"

text \<open>
  \<open>EmulatorInitialize\<close>. The interrupt controller, timer, clock, speaker, keyboard
  controller, BOP table and VDD support own state that is not in this file; their
  initialisers return nothing and are left out. \<open>VgaInitialize\<close> returns a flag, which
  the code does not look at.
\<close>

definition EmulatorInitialize ::
  "constants \<Rightarrow> 'c cpu_engine \<Rightarrow> ('v \<Rightarrow> bool \<times> 'v) \<Rightarrow> bool \<Rightarrow> ('c, 'v) emulator
     \<Rightarrow> ('c, 'v) emulator \<times> bool" where
  "EmulatorInitialize k cpu VgaInitialize heap_available s =
     (let s1 = s\<lparr>BaseAddress := HeapAlloc_zeroed heap_available (unat (MAX_ADDRESS k))\<rparr>
      in case BaseAddress s1 of
           None \<Rightarrow> (s1, False)
         | Some m \<Rightarrow>
             (let s2 = s1\<lparr>EmulatorContext := Fast486Initialize cpu (EmulatorContext s1)\<rparr>;
                  s3 = s2\<lparr>EmulatorContext := setIF cpu True (EmulatorContext s2)\<rparr>;
                  s4 = s3\<lparr>Vga := snd (VgaInitialize (Vga s3))\<rparr>
              in (s4, True)))"

subsection \<open>Exceptions, stepping, the A20 line\<close>

definition ExceptionName :: "string list" where
  "ExceptionName =
     [''Division By Zero'', ''Debug'', ''Unexpected Error'', ''Breakpoint'',
      ''Integer Overflow'', ''Bound Range Exceeded'', ''Invalid Opcode'',
      ''FPU Not Available'']"

text \<open>
  Modelled from the spec: the macro \<open>SEG_OFF_TO_PTR\<close> of emulator.h is not in the
  translated file. The absolute address of a real-mode segment:offset pair is sixteen times
  the segment plus the offset, computed without wrap-around; the pointer is that offset
  from \<open>BaseAddress\<close>.
\<close>

definition TO_LINEAR :: "word16 \<Rightarrow> word16 \<Rightarrow> nat" where
  "TO_LINEAR seg off = unat seg * 16 + unat off"

definition EmulatorException ::
  "constants \<Rightarrow> ('c, 'v) emulator \<Rightarrow> byte \<Rightarrow> word16 list \<Rightarrow> fault + ('c, 'v) emulator" where
  "EmulatorException k s ExceptionNumber Stack =
     (if DBG k \<and> \<not> ExceptionNumber < 8 then Inl AssertionFailed
      else if \<not> (STACK_IP k < length Stack \<and> STACK_CS k < length Stack) then Inl StackOverrun
      else
        (let InstructionPointer = Stack ! STACK_IP k;
             CodeSegment = Stack ! STACK_CS k;
             Opcode = TO_LINEAR CodeSegment InstructionPointer
         in if \<not> unat ExceptionNumber < length ExceptionName then Inl TableOverrun
            else
              (case BaseAddress s of
                 None \<Rightarrow> Inl NullArena
               | Some m \<Rightarrow>
                   if unat (MAX_ADDRESS k) < Opcode + 10 then Inl ArenaOverrun
                   else
                     Inr (s\<lparr>Messages := Messages s @
                              [\<lparr>ReportName = ExceptionName ! unat ExceptionNumber,
                                ReportSegment = CodeSegment,
                                ReportOffset = InstructionPointer,
                                ReportOpcode = arena_load m Opcode 10\<rparr>],
                            VdmRunning := False\<rparr>))))"

definition EmulatorStep :: "'c cpu_engine \<Rightarrow> ('c, 'v) emulator \<Rightarrow> ('c, 'v) emulator" where
  "EmulatorStep cpu s = s\<lparr>EmulatorContext := Fast486StepInto cpu (EmulatorContext s)\<rparr>"

definition EmulatorSetA20 :: "bool \<Rightarrow> ('c, 'v) emulator \<Rightarrow> ('c, 'v) emulator" where
  "EmulatorSetA20 Enabled s = s\<lparr>A20Line := Enabled\<rparr>"

definition VDDTerminateVDM :: "('c, 'v) emulator \<Rightarrow> ('c, 'v) emulator" where
  "VDDTerminateVDM s = s\<lparr>VdmRunning := False\<rparr>"

subsection \<open>Sequences of calls\<close>

text \<open>
  The entry points of the file that act on its variables after initialisation, as data,
  and a machine that performs a list of them, stopping at the first fault. The memory
  accesses and the exception reports the engine makes while it executes an instruction
  are calls of these entry points, and stand in such a list as calls of their own.
\<close>

datatype call =
  ReadMemory ulong "byte list" ulong
  | WriteMemory ulong "byte list" ulong
  | Exception byte "word16 list"
  | Step
  | SetA20 bool
  | TerminateVDM

fun perform ::
  "constants \<Rightarrow> 'v vga_driver \<Rightarrow> 'c cpu_engine \<Rightarrow> ('c, 'v) emulator \<Rightarrow> call
     \<Rightarrow> fault + ('c, 'v) emulator" where
  "perform k vga cpu s (ReadMemory a b n) =
     (case EmulatorReadMemory k vga s a b n of Inl f \<Rightarrow> Inl f | Inr r \<Rightarrow> Inr (fst r))"
| "perform k vga cpu s (WriteMemory a b n) = EmulatorWriteMemory k vga s a b n"
| "perform k vga cpu s (Exception e st) = EmulatorException k s e st"
| "perform k vga cpu s Step = Inr (EmulatorStep cpu s)"
| "perform k vga cpu s (SetA20 e) = Inr (EmulatorSetA20 e s)"
| "perform k vga cpu s TerminateVDM = Inr (VDDTerminateVDM s)"

fun perform_all ::
  "constants \<Rightarrow> 'v vga_driver \<Rightarrow> 'c cpu_engine \<Rightarrow> ('c, 'v) emulator \<Rightarrow> call list
     \<Rightarrow> fault + ('c, 'v) emulator" where
  "perform_all k vga cpu s [] = Inr s"
| "perform_all k vga cpu s (c # cs) =
     (case perform k vga cpu s c of Inl f \<Rightarrow> Inl f | Inr s' \<Rightarrow> perform_all k vga cpu s' cs)"

subsection \<open>Sample parameters\<close>

text \<open>
  Concrete values of the parameters, at which the theorems below are instantiated. The
  sample adapter has a video memory of its own, indexed by guest address, and keeps the
  low four bits of every byte written to it. The sample engine counts the instructions
  it has executed.
\<close>

definition sample_constants :: "ulong \<Rightarrow> constants" where
  "sample_constants rom_end =
     \<lparr>MAX_ADDRESS = 0x100000, ROM_AREA_START = 0xF0000, ROM_AREA_END = rom_end,
      STACK_IP = 1, STACK_CS = 2, DBG = True\<rparr>"

definition sample_vga :: "ulong \<Rightarrow> ulong \<Rightarrow> (nat \<Rightarrow> byte) vga_driver" where
  "sample_vga base limit =
     \<lparr>VgaGetVideoBaseAddress = (\<lambda>v. base),
      VgaGetVideoLimitAddress = (\<lambda>v. limit),
      VgaReadMemory = (\<lambda>v a old n. (arena_load v (unat a) (unat n), v)),
      VgaWriteMemory = (\<lambda>v a bs n.
         arena_store v (unat a) (map (\<lambda>b. b AND 0x0F) (take (unat n) bs)))\<rparr>"

definition sample_engine :: "nat cpu_engine" where
  "sample_engine = \<lparr>Fast486Initialize = (\<lambda>c. 0), Fast486StepInto = Suc, setIF = (\<lambda>e c. c)\<rparr>"

definition sample_machine :: "bool \<Rightarrow> (nat, nat \<Rightarrow> byte) emulator" where
  "sample_machine a20 =
     \<lparr>EmulatorContext = 0, BaseAddress = Some (\<lambda>i. 0), VdmRunning = True, A20Line = a20,
      Vga = (\<lambda>i. 0xFF), VgaCalls = [], Messages = []\<rparr>"

section \<open>Properties\<close>

lemmas sample_defs =
  sample_constants_def sample_vga_def sample_engine_def sample_machine_def

lemmas word_order_nat = word_le_nat_alt word_less_nat_alt

lemmas run_defs =
  EmulatorReadMemory_def EmulatorWriteMemory_def copy_from_arena_def copy_to_arena_def
  vga_read_to_arena_def vga_write_from_arena_def

lemma arena_store_apply:
  "arena_store m a bs i = (if a \<le> i \<and> i < a + length bs then bs ! (i - a) else m i)"
  by (simp add: arena_store_def)

lemmas eval_defs = sample_defs word_order_nat arena_load_def arena_store_apply upt_rec Let_def

subsection \<open>The path of a request that passes the bounds check\<close>

text \<open>
  The lemmas of this subsection read the 32-bit comparisons and the computation of
  \<open>VgaAddress\<close> and \<open>ActualSize\<close> as arithmetic on natural numbers, for a request
  whose masked address plus length is below \<open>MAX_ADDRESS\<close>.
\<close>

lemma unat_min_word: "unat (min (x::ulong) y) = min (unat x) (unat y)"
  by (simp add: min_def word_le_nat_alt)

lemma unat_max_word: "unat (max (x::ulong) y) = max (unat x) (unat y)"
  by (simp add: max_def word_le_nat_alt)

lemma overlap_arith:
  fixes Address Size base limit :: ulong
  assumes nowrap: "unat Address + unat Size < 2 ^ 32"
    and pos: "0 < unat Size"
    and lim: "unat Address < unat limit"
    and bas: "unat base \<le> unat Address + unat Size"
    and reg: "unat base \<le> unat limit"
  shows "unat (min (Address + Size - 1) limit - max Address base + 1)
           = min (unat Address + unat Size - 1) (unat limit) + 1 - max (unat Address) (unat base)"
proof -
  let ?a = "unat Address" and ?n = "unat Size" and ?b = "unat base" and ?l = "unat limit"
  have e: "unat (Address + Size) = ?a + ?n"
    using nowrap unat_add_lem [of Address Size] by simp
  have e1: "unat (Address + Size - 1) = ?a + ?n - 1"
    using e pos by (simp add: unat_sub_if_size word_size)
  have x: "unat (min (Address + Size - 1) limit) = min (?a + ?n - 1) ?l"
    by (simp add: unat_min_word e1)
  have v: "unat (max Address base) = max ?a ?b"
    by (simp add: unat_max_word)
  have lt: "?l < 2 ^ 32"
    using unsigned_less [of limit] by simp
  let ?X = "min (Address + Size - 1) limit" and ?V = "max Address base"
  have vx: "unat ?V \<le> unat ?X + 1"
    unfolding x v using pos lim bas reg by arith
  have xlt: "unat ?X + 1 < 2 ^ 32"
    unfolding x using nowrap pos by arith
  have rhs: "min (?a + ?n - 1) ?l + 1 - max ?a ?b = unat ?X + 1 - unat ?V"
    by (simp only: x v)
  show ?thesis
    unfolding rhs
  proof (cases "unat ?V \<le> unat ?X")
    case True
    then have d: "unat (?X - ?V) = unat ?X - unat ?V"
      by (simp add: unat_sub_if_size)
    have "unat (?X - ?V) + unat (1::ulong) < 2 ^ LENGTH(32)"
      using d xlt by simp
    then have "unat (?X - ?V + 1) = unat (?X - ?V) + 1"
      using unat_add_lem [of "?X - ?V" 1] by simp
    then show "unat (?X - ?V + 1) = unat ?X + 1 - unat ?V"
      using d True by linarith
  next
    case False
    then have eq: "unat ?V = unat ?X + 1"
      using vx by arith
    have "?V = ?X + 1"
    proof -
      have "unat (?X + 1) = unat ?X + 1"
        using xlt unat_add_lem [of ?X 1] by simp
      then show ?thesis
        using eq by (simp add: word_unat_eq_iff)
    qed
    then have "?X - ?V + 1 = 0"
      by simp
    then have "unat (?X - ?V + 1) = 0"
      by simp
    then show "unat (?X - ?V + 1) = unat ?X + 1 - unat ?V"
      using eq by linarith
  qed
qed

lemma write_path:
  assumes A: "Address = (if \<not> A20Line s then Address0 AND NOT (push_bit 20 1) else Address0)"
    and inb: "unat Address + unat Size < unat (MAX_ADDRESS k)"
    and rom: "\<not> (unat (ROM_AREA_START k) \<le> unat Address + unat Size
                \<and> unat Address < unat (ROM_AREA_END k))"
    and arena: "BaseAddress s = Some m"
    and buf: "unat Size \<le> length Buffer"
    and s1: "s1 = s\<lparr>BaseAddress := Some (arena_store m (unat Address) (take (unat Size) Buffer))\<rparr>"
  shows "EmulatorWriteMemory k vga s Address0 Buffer Size =
     (if unat (VgaGetVideoBaseAddress vga (Vga s)) \<le> unat Address + unat Size
          \<and> unat Address < unat (VgaGetVideoLimitAddress vga (Vga s))
      then vga_write_from_arena k vga s1 (max Address (VgaGetVideoBaseAddress vga (Vga s)))
             (min (Address + Size - 1) (VgaGetVideoLimitAddress vga (Vga s))
                - max Address (VgaGetVideoBaseAddress vga (Vga s)) + 1)
      else Inr s1)"
proof -
  have max32: "unat (MAX_ADDRESS k) < 2 ^ 32"
    using unsigned_less [of "MAX_ADDRESS k"] by simp
  have e: "unat (Address + Size) = unat Address + unat Size"
    using inb max32 unat_add_lem [of Address Size] by simp
  have c: "copy_to_arena k s Address Buffer Size = Inr s1"
    using inb arena buf s1 by (simp add: copy_to_arena_def)
  have v: "Vga s1 = Vga s"
    using s1 by simp
  have "EmulatorWriteMemory k vga s Address0 Buffer Size =
     (if MAX_ADDRESS k \<le> Address + Size then Inr s
      else if ROM_AREA_START k \<le> Address + Size \<and> Address < ROM_AREA_END k then Inr s
      else
        (case copy_to_arena k s Address Buffer Size of
           Inl f \<Rightarrow> Inl f
         | Inr s1 \<Rightarrow>
             if VgaGetVideoBaseAddress vga (Vga s1) \<le> Address + Size
                  \<and> Address < VgaGetVideoLimitAddress vga (Vga s1)
             then vga_write_from_arena k vga s1 (max Address (VgaGetVideoBaseAddress vga (Vga s1)))
                    (min (Address + Size - 1) (VgaGetVideoLimitAddress vga (Vga s1))
                       - max Address (VgaGetVideoBaseAddress vga (Vga s1)) + 1)
             else Inr s1))"
    by (simp only: EmulatorWriteMemory_def Let_def A [symmetric])
  then show ?thesis
    using inb rom by (simp add: word_order_nat e c v)
qed

lemma read_path:
  assumes A: "Address = (if \<not> A20Line s then Address0 AND NOT (push_bit 20 1) else Address0)"
    and inb: "unat Address + unat Size < unat (MAX_ADDRESS k)"
  shows "EmulatorReadMemory k vga s Address0 Buffer Size =
     (if unat (VgaGetVideoBaseAddress vga (Vga s)) \<le> unat Address + unat Size
          \<and> unat Address < unat (VgaGetVideoLimitAddress vga (Vga s))
      then
        (case vga_read_to_arena k vga s (max Address (VgaGetVideoBaseAddress vga (Vga s)))
             (min (Address + Size - 1) (VgaGetVideoLimitAddress vga (Vga s))
                - max Address (VgaGetVideoBaseAddress vga (Vga s)) + 1) of
           Inl f \<Rightarrow> Inl f
         | Inr s1 \<Rightarrow> copy_from_arena k s1 Address Buffer Size)
      else copy_from_arena k s Address Buffer Size)"
proof -
  have max32: "unat (MAX_ADDRESS k) < 2 ^ 32"
    using unsigned_less [of "MAX_ADDRESS k"] by simp
  have e: "unat (Address + Size) = unat Address + unat Size"
    using inb max32 unat_add_lem [of Address Size] by simp
  have "EmulatorReadMemory k vga s Address0 Buffer Size =
     (if MAX_ADDRESS k \<le> Address + Size then Inr (s, Buffer)
      else
        (case
           (if VgaGetVideoBaseAddress vga (Vga s) \<le> Address + Size
                 \<and> Address < VgaGetVideoLimitAddress vga (Vga s)
            then vga_read_to_arena k vga s (max Address (VgaGetVideoBaseAddress vga (Vga s)))
                   (min (Address + Size - 1) (VgaGetVideoLimitAddress vga (Vga s))
                      - max Address (VgaGetVideoBaseAddress vga (Vga s)) + 1)
            else Inr s) of
           Inl f \<Rightarrow> Inl f
         | Inr s1 \<Rightarrow> copy_from_arena k s1 Address Buffer Size))"
    by (simp only: EmulatorReadMemory_def Let_def A [symmetric])
  then show ?thesis
    using inb by (simp add: word_order_nat e)
qed

lemma overlap_within:
  fixes Address Size base limit :: ulong
  assumes nowrap: "unat Address + unat Size < 2 ^ 32"
    and pos: "0 < unat Size"
    and lim: "unat Address < unat limit"
    and bas: "unat base \<le> unat Address + unat Size"
    and reg: "unat base \<le> unat limit"
    and V: "VgaAddress = max Address base"
    and AS: "ActualSize = min (Address + Size - 1) limit - VgaAddress + 1"
  shows "unat VgaAddress = max (unat Address) (unat base)"
    and "unat VgaAddress + unat ActualSize = min (unat Address + unat Size - 1) (unat limit) + 1"
    and "unat Address \<le> unat VgaAddress"
    and "unat VgaAddress + unat ActualSize \<le> unat Address + unat Size"
proof -
  show v: "unat VgaAddress = max (unat Address) (unat base)"
    by (simp add: V unat_max_word)
  have a: "unat ActualSize
      = min (unat Address + unat Size - 1) (unat limit) + 1 - max (unat Address) (unat base)"
    unfolding AS V using overlap_arith [OF nowrap pos lim bas reg] .
  have le: "max (unat Address) (unat base) \<le> min (unat Address + unat Size - 1) (unat limit) + 1"
    using pos lim bas reg by arith
  show s: "unat VgaAddress + unat ActualSize = min (unat Address + unat Size - 1) (unat limit) + 1"
    using le unfolding v a by (rule le_add_diff_inverse)
  show "unat Address \<le> unat VgaAddress"
    unfolding v by simp
  show "unat VgaAddress + unat ActualSize \<le> unat Address + unat Size"
    unfolding s using pos by arith
qed

lemma load_of_store:
  assumes "a \<le> v" and "v + n \<le> a + length bs"
  shows "arena_load (arena_store m a bs) v n = take n (drop (v - a) bs)"
proof (rule nth_equalityI)
  show "length (arena_load (arena_store m a bs) v n) = length (take n (drop (v - a) bs))"
    using assms by (simp add: arena_load_def)
next
  fix i
  assume "i < length (arena_load (arena_store m a bs) v n)"
  then have i: "i < n"
    by (simp add: arena_load_def)
  then have "arena_load (arena_store m a bs) v n ! i = bs ! (v + i - a)"
    using assms by (simp add: arena_load_def arena_store_def)
  moreover have "take n (drop (v - a) bs) ! i = bs ! (v - a + i)"
    using i assms by simp
  moreover have "v + i - a = v - a + i"
    using assms(1) by simp
  ultimately show "arena_load (arena_store m a bs) v n ! i = take n (drop (v - a) bs) ! i"
    by simp
qed

lemma write_through_vga:
  assumes A: "Address = (if \<not> A20Line s then Address0 AND NOT (push_bit 20 1) else Address0)"
    and inb: "unat Address + unat Size < unat (MAX_ADDRESS k)"
    and rom: "\<not> (unat (ROM_AREA_START k) \<le> unat Address + unat Size
                \<and> unat Address < unat (ROM_AREA_END k))"
    and arena: "BaseAddress s = Some m"
    and buf: "unat Size \<le> length Buffer"
    and base: "VgaGetVideoBaseAddress vga (Vga s) = base"
    and limit: "VgaGetVideoLimitAddress vga (Vga s) = limit"
    and pos: "0 < unat Size"
    and lim: "unat Address < unat limit"
    and bas: "unat base \<le> unat Address + unat Size"
    and reg: "unat base \<le> unat limit"
    and V: "VgaAddress = max Address base"
    and AS: "ActualSize = min (Address + Size - 1) limit - VgaAddress + 1"
    and fwd: "fwd = take (unat ActualSize) (drop (unat VgaAddress - unat Address) Buffer)"
  shows "EmulatorWriteMemory k vga s Address0 Buffer Size =
           Inr (s\<lparr>BaseAddress := Some (arena_store m (unat Address) (take (unat Size) Buffer)),
                  Vga := VgaWriteMemory vga (Vga s) VgaAddress fwd ActualSize,
                  VgaCalls := VgaCalls s @ [VgaWriteCall VgaAddress ActualSize fwd]\<rparr>)"
proof -
  have max32: "unat (MAX_ADDRESS k) < 2 ^ 32"
    using unsigned_less [of "MAX_ADDRESS k"] by simp
  have nowrap: "unat Address + unat Size < 2 ^ 32"
    using inb max32 by simp
  note w = overlap_within [OF nowrap pos lim bas reg V AS]
  define s1 where
    "s1 = s\<lparr>BaseAddress := Some (arena_store m (unat Address) (take (unat Size) Buffer))\<rparr>"
  have ld: "arena_load (arena_store m (unat Address) (take (unat Size) Buffer))
              (unat VgaAddress) (unat ActualSize) = fwd"
  proof -
    have "arena_load (arena_store m (unat Address) (take (unat Size) Buffer))
              (unat VgaAddress) (unat ActualSize)
           = take (unat ActualSize) (drop (unat VgaAddress - unat Address) (take (unat Size) Buffer))"
      using w(3) w(4) buf by (intro load_of_store) simp_all
    also have "\<dots> = fwd"
    proof -
      have "unat ActualSize \<le> unat Size - (unat VgaAddress - unat Address)"
        using w(3) w(4) by arith
      then show ?thesis
        unfolding fwd by (simp add: drop_take min_absorb1)
    qed
    finally show ?thesis .
  qed
  have fits: "\<not> unat (MAX_ADDRESS k) < unat VgaAddress + unat ActualSize"
    using w(4) inb by simp
  have "vga_write_from_arena k vga s1 VgaAddress ActualSize =
          Inr (s1\<lparr>Vga := VgaWriteMemory vga (Vga s1) VgaAddress fwd ActualSize,
                  VgaCalls := VgaCalls s1 @ [VgaWriteCall VgaAddress ActualSize fwd]\<rparr>)"
    using fits ld by (simp add: vga_write_from_arena_def s1_def Let_def)
  moreover have "EmulatorWriteMemory k vga s Address0 Buffer Size =
      vga_write_from_arena k vga s1 VgaAddress ActualSize"
    using write_path [OF A inb rom arena buf s1_def, of vga] bas lim
    by (simp add: base limit V AS)
  ultimately show ?thesis
    by (simp add: s1_def)
qed

lemma read_through_vga:
  assumes A: "Address = (if \<not> A20Line s then Address0 AND NOT (push_bit 20 1) else Address0)"
    and inb: "unat Address + unat Size < unat (MAX_ADDRESS k)"
    and arena: "BaseAddress s = Some m"
    and buf: "unat Size \<le> length Buffer"
    and base: "VgaGetVideoBaseAddress vga (Vga s) = base"
    and limit: "VgaGetVideoLimitAddress vga (Vga s) = limit"
    and pos: "0 < unat Size"
    and lim: "unat Address < unat limit"
    and bas: "unat base \<le> unat Address + unat Size"
    and reg: "unat base \<le> unat limit"
    and V: "VgaAddress = max Address base"
    and AS: "ActualSize = min (Address + Size - 1) limit - VgaAddress + 1"
    and dev: "VgaReadMemory vga (Vga s) VgaAddress
                (arena_load m (unat VgaAddress) (unat ActualSize)) ActualSize = (bs, v)"
    and m': "m' = arena_store m (unat VgaAddress) (take (unat ActualSize) bs)"
  shows "EmulatorReadMemory k vga s Address0 Buffer Size =
           Inr (s\<lparr>BaseAddress := Some m', Vga := v,
                  VgaCalls := VgaCalls s @ [VgaReadCall VgaAddress ActualSize]\<rparr>,
                arena_load m' (unat Address) (unat Size) @ drop (unat Size) Buffer)"
proof -
  have max32: "unat (MAX_ADDRESS k) < 2 ^ 32"
    using unsigned_less [of "MAX_ADDRESS k"] by simp
  have nowrap: "unat Address + unat Size < 2 ^ 32"
    using inb max32 by simp
  note w = overlap_within [OF nowrap pos lim bas reg V AS]
  have fits: "\<not> unat (MAX_ADDRESS k) < unat VgaAddress + unat ActualSize"
    using w(4) inb by simp
  define s1 where "s1 = s\<lparr>BaseAddress := Some m', Vga := v,
                  VgaCalls := VgaCalls s @ [VgaReadCall VgaAddress ActualSize]\<rparr>"
  have r: "vga_read_to_arena k vga s VgaAddress ActualSize = Inr s1"
    using fits arena dev by (simp add: vga_read_to_arena_def m' s1_def)
  have c: "copy_from_arena k s1 Address Buffer Size =
      Inr (s1, arena_load m' (unat Address) (unat Size) @ drop (unat Size) Buffer)"
    using inb buf by (simp add: copy_from_arena_def s1_def)
  show ?thesis
    using read_path [OF A inb, of vga Buffer] bas lim
    by (simp add: base limit V [symmetric] AS [symmetric] r [unfolded s1_def] c [unfolded s1_def])
qed

lemma inside_window:
  fixes Address Size base limit :: ulong
  assumes nowrap: "unat Address + unat Size < 2 ^ 32"
    and pos: "0 < unat Size"
    and lo: "unat base \<le> unat Address"
    and hi: "unat Address + unat Size \<le> unat limit + 1"
    and lim: "unat Address < unat limit"
  shows "max Address base = Address"
    and "min (Address + Size - 1) limit - max Address base + 1 = Size"
    and "min (Address + Size - 1) limit - Address + 1 = Size"
proof -
  show v: "max Address base = Address"
    using lo by (simp add: max_def word_le_nat_alt word_unat_eq_iff)
  have bas: "unat base \<le> unat Address + unat Size"
    using lo by simp
  have reg: "unat base \<le> unat limit"
    using lo lim by simp
  have "unat (max Address base)
          + unat (min (Address + Size - 1) limit - max Address base + 1)
        = min (unat Address + unat Size - 1) (unat limit) + 1"
    by (rule overlap_within(2) [OF nowrap pos lim bas reg refl refl])
  then have "unat Address + unat (min (Address + Size - 1) limit - max Address base + 1)
        = unat Address + unat Size"
    using pos hi unfolding v by simp
  then show w: "min (Address + Size - 1) limit - max Address base + 1 = Size"
    by (simp add: word_unat_eq_iff)
  show "min (Address + Size - 1) limit - Address + 1 = Size"
    using w unfolding v .
qed

lemma store_over_store:
  assumes "length bs = length cs"
  shows "arena_store (arena_store m a cs) a bs = arena_store m a bs"
  using assms by (auto simp: arena_store_def)

lemma load_stored:
  "arena_load (arena_store m a bs) a (length bs) = bs"
  using load_of_store [of a a "length bs" bs m] by simp

lemma write_then_read_inside:
  assumes A: "Address = (if \<not> A20Line s then Address0 AND NOT (push_bit 20 1) else Address0)"
    and inb: "unat Address + unat Size < unat (MAX_ADDRESS k)"
    and rom: "\<not> (unat (ROM_AREA_START k) \<le> unat Address + unat Size
                \<and> unat Address < unat (ROM_AREA_END k))"
    and arena: "BaseAddress s = Some m"
    and buf: "unat Size \<le> length Payload"
    and base: "VgaGetVideoBaseAddress vga (Vga s) = base"
    and limit: "VgaGetVideoLimitAddress vga (Vga s) = limit"
    and pos: "0 < unat Size"
    and lo: "unat base \<le> unat Address"
    and hi: "unat Address + unat Size \<le> unat limit + 1"
    and lim: "unat Address < unat limit"
    and payload: "payload = take (unat Size) Payload"
    and v1: "v1 = VgaWriteMemory vga (Vga s) Address payload Size"
    and s1: "s1 = s\<lparr>BaseAddress := Some (arena_store m (unat Address) payload), Vga := v1,
                     VgaCalls := VgaCalls s @ [VgaWriteCall Address Size payload]\<rparr>"
    and base1: "VgaGetVideoBaseAddress vga v1 = base"
    and limit1: "VgaGetVideoLimitAddress vga v1 = limit"
    and dev: "VgaReadMemory vga v1 Address payload Size = (bs, v2)"
    and len: "length bs = unat Size"
    and buf2: "unat Size \<le> length Buffer"
  shows "EmulatorWriteMemory k vga s Address0 Payload Size = Inr s1"
    and "EmulatorReadMemory k vga s1 Address0 Buffer Size =
           Inr (s1\<lparr>BaseAddress := Some (arena_store m (unat Address) bs), Vga := v2,
                    VgaCalls := VgaCalls s1 @ [VgaReadCall Address Size]\<rparr>,
                bs @ drop (unat Size) Buffer)"
proof -
  have max32: "unat (MAX_ADDRESS k) < 2 ^ 32"
    using unsigned_less [of "MAX_ADDRESS k"] by simp
  have nowrap: "unat Address + unat Size < 2 ^ 32"
    using inb max32 by simp
  note win = inside_window [OF nowrap pos lo hi lim]
  have bas: "unat base \<le> unat Address + unat Size"
    using lo by simp
  have reg: "unat base \<le> unat limit"
    using lo lim by simp
  have plen: "length payload = unat Size"
    using buf by (simp add: payload)
  show w: "EmulatorWriteMemory k vga s Address0 Payload Size = Inr s1"
    using write_through_vga [OF A inb rom arena buf base limit pos lim bas reg refl refl refl]
    by (simp add: win s1 v1 payload)
  have A1: "Address = (if \<not> A20Line s1 then Address0 AND NOT (push_bit 20 1) else Address0)"
    using A by (simp add: s1)
  have arena1: "BaseAddress s1 = Some (arena_store m (unat Address) payload)"
    by (simp add: s1)
  have base1': "VgaGetVideoBaseAddress vga (Vga s1) = base"
    using base1 by (simp add: s1)
  have limit1': "VgaGetVideoLimitAddress vga (Vga s1) = limit"
    using limit1 by (simp add: s1)
  have dev1: "VgaReadMemory vga (Vga s1) (max Address base)
      (arena_load (arena_store m (unat Address) payload) (unat (max Address base))
         (unat (min (Address + Size - 1) limit - max Address base + 1)))
      (min (Address + Size - 1) limit - max Address base + 1) = (bs, v2)"
    using dev load_stored [of m "unat Address" payload] by (simp add: win s1 plen)
  have "EmulatorReadMemory k vga s1 Address0 Buffer Size =
      Inr (s1\<lparr>BaseAddress := Some (arena_store (arena_store m (unat Address) payload)
                  (unat Address) (take (unat Size) bs)),
               Vga := v2, VgaCalls := VgaCalls s1 @ [VgaReadCall Address Size]\<rparr>,
           arena_load (arena_store (arena_store m (unat Address) payload)
                  (unat Address) (take (unat Size) bs)) (unat Address) (unat Size)
             @ drop (unat Size) Buffer)"
    using read_through_vga [OF A1 inb arena1 buf2 base1' limit1' pos lim bas reg refl refl dev1 refl]
    by (simp add: win)
  moreover have "take (unat Size) bs = bs"
    using len by simp
  moreover have "arena_store (arena_store m (unat Address) payload) (unat Address) bs
      = arena_store m (unat Address) bs"
    using len plen by (simp add: store_over_store)
  moreover have "arena_load (arena_store m (unat Address) bs) (unat Address) (unat Size) = bs"
    using load_stored [of m "unat Address" bs] len by simp
  ultimately show "EmulatorReadMemory k vga s1 Address0 Buffer Size =
           Inr (s1\<lparr>BaseAddress := Some (arena_store m (unat Address) bs), Vga := v2,
                    VgaCalls := VgaCalls s1 @ [VgaReadCall Address Size]\<rparr>,
                bs @ drop (unat Size) Buffer)"
    by simp
qed

lemma rom_overlap_dropped:
  assumes A: "Address = (if \<not> A20Line s then Address0 AND NOT (push_bit 20 1) else Address0)"
    and inb: "unat Address + unat Size < unat (MAX_ADDRESS k)"
    and lo: "unat (ROM_AREA_START k) < unat Address + unat Size"
    and hi: "unat Address < unat (ROM_AREA_END k)"
  shows "EmulatorWriteMemory k vga s Address0 Buffer Size = Inr s"
proof -
  have max32: "unat (MAX_ADDRESS k) < 2 ^ 32"
    using unsigned_less [of "MAX_ADDRESS k"] by simp
  have e: "unat (Address + Size) = unat Address + unat Size"
    using inb max32 unat_add_lem [of Address Size] by simp
  have "EmulatorWriteMemory k vga s Address0 Buffer Size =
     (if MAX_ADDRESS k \<le> Address + Size then Inr s
      else if ROM_AREA_START k \<le> Address + Size \<and> Address < ROM_AREA_END k then Inr s
      else
        (case copy_to_arena k s Address Buffer Size of
           Inl f \<Rightarrow> Inl f
         | Inr s1 \<Rightarrow>
             if VgaGetVideoBaseAddress vga (Vga s1) \<le> Address + Size
                  \<and> Address < VgaGetVideoLimitAddress vga (Vga s1)
             then vga_write_from_arena k vga s1 (max Address (VgaGetVideoBaseAddress vga (Vga s1)))
                    (min (Address + Size - 1) (VgaGetVideoLimitAddress vga (Vga s1))
                       - max Address (VgaGetVideoBaseAddress vga (Vga s1)) + 1)
             else Inr s1))"
    by (simp only: EmulatorWriteMemory_def Let_def A [symmetric])
  then show ?thesis
    using lo hi by (simp add: word_order_nat e)
qed

lemma write_ending_at_rom_start_dropped:
  assumes A: "Address = (if \<not> A20Line s then Address0 AND NOT (push_bit 20 1) else Address0)"
    and inb: "unat Address + unat Size < unat (MAX_ADDRESS k)"
    and adj: "unat Address + unat Size = unat (ROM_AREA_START k)"
    and hi: "unat Address < unat (ROM_AREA_END k)"
  shows "EmulatorWriteMemory k vga s Address0 Buffer Size = Inr s"
proof -
  have max32: "unat (MAX_ADDRESS k) < 2 ^ 32"
    using unsigned_less [of "MAX_ADDRESS k"] by simp
  have e: "unat (Address + Size) = unat Address + unat Size"
    using inb max32 unat_add_lem [of Address Size] by simp
  have "ROM_AREA_START k \<le> Address + Size \<and> Address < ROM_AREA_END k"
    using adj hi by (simp add: word_order_nat e)
  then show ?thesis
    by (simp add: EmulatorWriteMemory_def Let_def A [symmetric])
qed

subsection \<open>What the entry points leave alone\<close>

lemma copy_from_arena_frame:
  assumes "copy_from_arena k s a b n = Inr r"
  shows "fst r = s"
  using assms by (auto simp: copy_from_arena_def split: option.splits if_splits)

lemma copy_to_arena_frame:
  assumes "copy_to_arena k s a b n = Inr s'"
  shows "A20Line s' = A20Line s \<and> VdmRunning s' = VdmRunning s"
  using assms by (auto simp: copy_to_arena_def split: option.splits if_splits)

lemma vga_read_to_arena_frame:
  assumes "vga_read_to_arena k vga s a n = Inr s'"
  shows "A20Line s' = A20Line s \<and> VdmRunning s' = VdmRunning s"
  using assms
  by (auto simp: vga_read_to_arena_def split: option.splits if_splits prod.splits)

lemma vga_write_from_arena_frame:
  assumes "vga_write_from_arena k vga s a n = Inr s'"
  shows "A20Line s' = A20Line s \<and> VdmRunning s' = VdmRunning s"
  using assms
  by (auto simp: vga_write_from_arena_def Let_def split: option.splits if_splits)

lemma read_frame:
  assumes "EmulatorReadMemory k vga s a b n = Inr r"
  shows "A20Line (fst r) = A20Line s \<and> VdmRunning (fst r) = VdmRunning s"
proof -
  define Address where
    "Address = (if \<not> A20Line s then a AND NOT (push_bit 20 1) else a)"
  have unfolded: "EmulatorReadMemory k vga s a b n =
     (if MAX_ADDRESS k \<le> Address + n then Inr (s, b)
      else
        (case
           (if VgaGetVideoBaseAddress vga (Vga s) \<le> Address + n
                 \<and> Address < VgaGetVideoLimitAddress vga (Vga s)
            then vga_read_to_arena k vga s (max Address (VgaGetVideoBaseAddress vga (Vga s)))
                   (min (Address + n - 1) (VgaGetVideoLimitAddress vga (Vga s))
                      - max Address (VgaGetVideoBaseAddress vga (Vga s)) + 1)
            else Inr s) of
           Inl f \<Rightarrow> Inl f
         | Inr s1 \<Rightarrow> copy_from_arena k s1 Address b n))"
    by (simp only: EmulatorReadMemory_def Let_def Address_def)
  show ?thesis
    using assms unfolding unfolded
    by (auto split: if_splits sum.splits
        dest!: copy_from_arena_frame vga_read_to_arena_frame)
qed

lemma write_frame:
  assumes "EmulatorWriteMemory k vga s a b n = Inr s'"
  shows "A20Line s' = A20Line s \<and> VdmRunning s' = VdmRunning s"
proof -
  define Address where
    "Address = (if \<not> A20Line s then a AND NOT (push_bit 20 1) else a)"
  have unfolded: "EmulatorWriteMemory k vga s a b n =
     (if MAX_ADDRESS k \<le> Address + n then Inr s
      else if ROM_AREA_START k \<le> Address + n \<and> Address < ROM_AREA_END k then Inr s
      else
        (case copy_to_arena k s Address b n of
           Inl f \<Rightarrow> Inl f
         | Inr s1 \<Rightarrow>
             if VgaGetVideoBaseAddress vga (Vga s1) \<le> Address + n
                  \<and> Address < VgaGetVideoLimitAddress vga (Vga s1)
             then vga_write_from_arena k vga s1 (max Address (VgaGetVideoBaseAddress vga (Vga s1)))
                    (min (Address + n - 1) (VgaGetVideoLimitAddress vga (Vga s1))
                       - max Address (VgaGetVideoBaseAddress vga (Vga s1)) + 1)
             else Inr s1))"
    by (simp only: EmulatorWriteMemory_def Let_def Address_def)
  show ?thesis
    using assms unfolding unfolded
    by (auto split: if_splits sum.splits
        dest!: copy_to_arena_frame vga_write_from_arena_frame)
qed

lemma exception_halts:
  assumes "EmulatorException k s e st = Inr s'"
  shows "\<not> VdmRunning s' \<and> A20Line s' = A20Line s"
  using assms
  by (auto simp: EmulatorException_def Let_def split: if_splits option.splits)

lemma perform_keeps_halted:
  assumes "perform k vga cpu s c = Inr s'" and "\<not> VdmRunning s"
  shows "\<not> VdmRunning s'"
proof (cases c)
  case (ReadMemory a b n)
  then show ?thesis
    using assms read_frame [of k vga s a b n]
    by (auto split: sum.splits)
next
  case (WriteMemory a b n)
  then show ?thesis
    using assms write_frame [of k vga s a b n s'] by simp
next
  case (Exception e st)
  then show ?thesis
    using assms exception_halts [of k s e st s'] by simp
next
  case Step
  then show ?thesis
    using assms by (auto simp: EmulatorStep_def)
next
  case (SetA20 e)
  then show ?thesis
    using assms by (auto simp: EmulatorSetA20_def)
next
  case TerminateVDM
  then show ?thesis
    using assms by (auto simp: VDDTerminateVDM_def)
qed

lemma perform_all_keeps_halted:
  assumes "perform_all k vga cpu s cs = Inr s'" and "\<not> VdmRunning s"
  shows "\<not> VdmRunning s'"
  using assms
proof (induction cs arbitrary: s)
  case Nil
  then show ?case by simp
next
  case (Cons c cs)
  then show ?case
    by (auto split: sum.splits dest: perform_keeps_halted)
qed

lemma perform_keeps_a20:
  assumes "perform k vga cpu s c = Inr s'" and "\<forall>e. c \<noteq> SetA20 e"
  shows "A20Line s' = A20Line s"
proof (cases c)
  case (ReadMemory a b n)
  then show ?thesis
    using assms read_frame [of k vga s a b n]
    by (auto split: sum.splits)
next
  case (WriteMemory a b n)
  then show ?thesis
    using assms write_frame [of k vga s a b n s'] by simp
next
  case (Exception e st)
  then show ?thesis
    using assms exception_halts [of k s e st s'] by simp
next
  case Step
  then show ?thesis
    using assms by (auto simp: EmulatorStep_def)
next
  case (SetA20 e)
  then show ?thesis
    using assms by simp
next
  case TerminateVDM
  then show ?thesis
    using assms by (auto simp: VDDTerminateVDM_def)
qed

lemma perform_keeps_a20_clear:
  assumes "perform k vga cpu s c = Inr s'" and "c \<noteq> SetA20 True" and "\<not> A20Line s"
  shows "\<not> A20Line s'"
proof (cases "\<exists>e. c = SetA20 e")
  case True
  then show ?thesis
    using assms by (auto simp: EmulatorSetA20_def)
next
  case False
  then show ?thesis
    using assms perform_keeps_a20 [of k vga cpu s c s'] by simp
qed

lemma perform_all_keeps_a20_clear:
  assumes "perform_all k vga cpu s cs = Inr s'" and "SetA20 True \<notin> set cs" and "\<not> A20Line s"
  shows "\<not> A20Line s'"
  using assms
proof (induction cs arbitrary: s)
  case Nil
  then show ?case by simp
next
  case (Cons c cs)
  then show ?case
    by (auto split: sum.splits dest: perform_keeps_a20_clear)
qed

lemma initialize_keeps_a20:
  "A20Line (fst (EmulatorInitialize k cpu vi heap s)) = A20Line s"
  by (simp add: EmulatorInitialize_def HeapAlloc_zeroed_def Let_def)

lemma masked_twice:
  "(a AND NOT (push_bit 20 1)) AND NOT (push_bit 20 1) = a AND NOT (push_bit 20 (1 :: ulong))"
  by (simp add: and.assoc)

lemma clear_gate_masks:
  assumes "\<not> A20Line s"
  shows "EmulatorReadMemory k vga s (addr AND NOT (push_bit 20 1)) buf n
           = EmulatorReadMemory k vga s addr buf n"
    and "EmulatorWriteMemory k vga s (addr AND NOT (push_bit 20 1)) buf n
           = EmulatorWriteMemory k vga s addr buf n"
  using assms masked_twice [of addr]
  unfolding EmulatorReadMemory_def EmulatorWriteMemory_def by simp_all

lemma wrap_at_1MiB:
  fixes a :: ulong
  assumes lo: "0x100000 \<le> a" and hi: "a < 0x200000"
  shows "a AND NOT (push_bit 20 1) = a - 0x100000"
proof -
  have l: "1048576 \<le> unat a" and h: "unat a < 2097152"
    using lo hi by (simp_all add: word_le_nat_alt word_less_nat_alt)
  have "unat a div 2 ^ 20 = 1"
    using l h by simp
  then have "unat (a div 0x100000) = 1"
    by (simp add: unat_div)
  then have "a div 0x100000 = 1"
    by (simp add: word_unat_eq_iff)
  then have b: "bit a 20"
    by (simp add: bit_iff_odd)
  have "a AND NOT (push_bit 20 1) = unset_bit 20 a"
    by (simp add: unset_bit_eq_and_not)
  also have "\<dots> = a - 0x100000"
    using b by (simp add: unset_bit_eq)
  finally show ?thesis .
qed

subsection \<open>The bounds check\<close>

text \<open>
  C1, as the code has it. The address that is checked is the address after A20 masking,
  and the sum is the 32-bit sum. Whenever the masked address plus the length does not
  wrap around and is at or beyond \<open>MAX_ADDRESS\<close>, both callbacks return at once: the
  state (arena, adapter, log of device calls) and the caller's buffer are as before.
\<close>

theorem bounds_check_drops:
  assumes "Address = (if \<not> A20Line s then Address0 AND NOT (push_bit 20 1) else Address0)"
    and "unat (MAX_ADDRESS k) \<le> unat Address + unat Size"
    and "unat Address + unat Size < 2 ^ 32"
  shows "EmulatorReadMemory k vga s Address0 Buffer Size = Inr (s, Buffer)
         \<and> EmulatorWriteMemory k vga s Address0 Buffer Size = Inr s"
proof -
  have "unat (Address + Size) = unat Address + unat Size"
    using assms(3) unat_add_lem [of Address Size] by simp
  then have "MAX_ADDRESS k \<le> Address + Size"
    using assms(2) by (simp add: word_le_nat_alt)
  then show ?thesis
    using assms(1) unfolding EmulatorReadMemory_def EmulatorWriteMemory_def
    by (simp add: Let_def)
qed

theorem bounds_check_drops_witness:
  "unat (MAX_ADDRESS (sample_constants 0x100000)) \<le> unat (0xFFFFF :: ulong) + unat (1 :: ulong)
   \<and> unat (0xFFFFF :: ulong) + unat (1 :: ulong) < 2 ^ 32
   \<and> EmulatorReadMemory (sample_constants 0x100000) (sample_vga 0xA0000 0xB7FFF)
        (sample_machine False) 0x1FFFFF [0xFF] 1 = Inr (sample_machine False, [0xFF])
   \<and> EmulatorWriteMemory (sample_constants 0x100000) (sample_vga 0xA0000 0xB7FFF)
        (sample_machine False) 0x1FFFFF [0xFF] 1 = Inr (sample_machine False)"
  using bounds_check_drops [where Address = "0xFFFFF" and s = "sample_machine False"
      and ?Address0.0 = "0x1FFFFF" and k = "sample_constants 0x100000" and Size = 1
      and vga = "sample_vga 0xA0000 0xB7FFF" and Buffer = "[0xFF]"]
  by (simp add: sample_defs)

text \<open>
  C1 as stated fails. With the A20 gate clear and \<open>MAX_ADDRESS = 0x100000\<close>, the
  request at address \<open>0x100000\<close> of length 1 has the exact sum \<open>0x100001\<close>, beyond
  \<open>MAX_ADDRESS\<close>; the address is masked to 0 first, so the read fills the caller's buffer
  and the write changes arena byte 0. With the gate set, the request at \<open>0xFFFFFFFF\<close> of
  length 2 has the exact sum \<open>0x100000001\<close>; the 32-bit sum is 1, the check passes, and the
  copy leaves the arena.
\<close>

theorem bounds_check_counterexample:
  "unat (MAX_ADDRESS (sample_constants 0x100000)) \<le> unat (0x100000 :: ulong) + unat (1 :: ulong)
   \<and> EmulatorReadMemory (sample_constants 0x100000) (sample_vga 0xA0000 0xB7FFF)
        (sample_machine False) 0x100000 [0xFF] 1 = Inr (sample_machine False, [0])
   \<and> EmulatorWriteMemory (sample_constants 0x100000) (sample_vga 0xA0000 0xB7FFF)
        (sample_machine False) 0x100000 [0xAA] 1 \<noteq> Inr (sample_machine False)
   \<and> unat (MAX_ADDRESS (sample_constants 0x100000)) \<le> unat (0xFFFFFFFF :: ulong) + unat (2 :: ulong)
   \<and> EmulatorReadMemory (sample_constants 0x100000) (sample_vga 0xA0000 0xB7FFF)
        (sample_machine True) 0xFFFFFFFF [0xFF, 0xFF] 2 = Inl ArenaOverrun
   \<and> EmulatorWriteMemory (sample_constants 0x100000) (sample_vga 0xA0000 0xB7FFF)
        (sample_machine True) 0xFFFFFFFF [0xFF, 0xFF] 2 = Inl ArenaOverrun"
  by (auto simp add: EmulatorReadMemory_def EmulatorWriteMemory_def sample_defs
      copy_from_arena_def copy_to_arena_def arena_load_def arena_store_def word_order_nat
      dest: fun_cong [where x = 0])

subsection \<open>The ROM guard\<close>

text \<open>
  C2 at the input where the code and the claim part. With \<open>ROM_AREA_START = 0xF0000\<close>
  the one-byte write at \<open>0xEFFFF\<close> ends below the ROM area and is inside the arena, yet
  the guard \<open>(Address + Size) >= ROM_AREA_START\<close> holds and the write is dropped. The
  one-byte write at \<open>0xEFFFE\<close>, of the same shape, is stored. (A write that reaches
  into the area is dropped: \<open>rom_overlap_dropped\<close>. So is every write inside the arena
  that ends where the area starts: \<open>write_ending_at_rom_start_dropped\<close>.)
\<close>

theorem rom_guard_drops_adjacent_write:
  "unat (0xEFFFF :: ulong) + unat (1 :: ulong) \<le> unat (ROM_AREA_START (sample_constants 0x100000))
   \<and> unat (0xEFFFF :: ulong) + unat (1 :: ulong) < unat (MAX_ADDRESS (sample_constants 0x100000))
   \<and> EmulatorWriteMemory (sample_constants 0x100000) (sample_vga 0xA0000 0xB7FFF)
        (sample_machine True) 0xEFFFF [0xAA] 1 = Inr (sample_machine True)
   \<and> EmulatorWriteMemory (sample_constants 0x100000) (sample_vga 0xA0000 0xB7FFF)
        (sample_machine True) 0xEFFFE [0xAA] 1
       = Inr ((sample_machine True)\<lparr>BaseAddress := Some (arena_store (\<lambda>i. 0) 0xEFFFE [0xAA])\<rparr>)"
  by (simp add: EmulatorWriteMemory_def sample_defs copy_to_arena_def word_order_nat)

subsection \<open>The video window\<close>

text \<open>
  C4, as the code has it. The limit address the adapter reports is the last address of
  its window: the code takes the minimum of it and the request's last address
  \<open>Address + Size - 1\<close>, and adds one for the length. For a request of at least one
  byte inside the arena that starts below the limit address and whose end reaches the
  base, the base being at most the limit:
  \<^item> the range handed to the adapter runs from \<open>max Address base\<close> to
    \<open>min (Address + Size - 1) limit\<close>, both included;
  \<^item> a read lets the adapter fill that range of the arena first, and the caller's buffer is
    then loaded from the arena as the adapter left it;
  \<^item> a write that is not stopped by the ROM guard stores the payload first, and the
    adapter is then handed the bytes of the arena as stored, which are the payload's;
  \<^item> a write inside the window followed by a read of the same range returns what the
    adapter's read entry point yields after its write entry point has seen the payload.
\<close>

theorem vga_mirroring_order:
  assumes A: "Address = (if \<not> A20Line s then Address0 AND NOT (push_bit 20 1) else Address0)"
    and inb: "unat Address + unat Size < unat (MAX_ADDRESS k)"
    and pos: "0 < unat Size"
    and arena: "BaseAddress s = Some m"
    and buf: "unat Size \<le> length Buffer"
    and dst: "unat Size \<le> length Dest"
    and base: "VgaGetVideoBaseAddress vga (Vga s) = base"
    and limit: "VgaGetVideoLimitAddress vga (Vga s) = limit"
    and reg: "unat base \<le> unat limit"
    and bas: "unat base \<le> unat Address + unat Size"
    and lim: "unat Address < unat limit"
    and V: "VgaAddress = max Address base"
    and AS: "ActualSize = min (Address + Size - 1) limit - VgaAddress + 1"
    and dev: "VgaReadMemory vga (Vga s) VgaAddress
                (arena_load m (unat VgaAddress) (unat ActualSize)) ActualSize = (bs, v)"
    and m': "m' = arena_store m (unat VgaAddress) (take (unat ActualSize) bs)"
    and payload: "payload = take (unat Size) Buffer"
    and fwd: "fwd = arena_load (arena_store m (unat Address) payload)
                      (unat VgaAddress) (unat ActualSize)"
    and v1: "v1 = VgaWriteMemory vga (Vga s) VgaAddress fwd ActualSize"
    and s1: "s1 = s\<lparr>BaseAddress := Some (arena_store m (unat Address) payload), Vga := v1,
                     VgaCalls := VgaCalls s @ [VgaWriteCall VgaAddress ActualSize fwd]\<rparr>"
  shows "unat VgaAddress = max (unat Address) (unat base)
       \<and> unat VgaAddress + unat ActualSize
           = min (unat Address + unat Size - 1) (unat limit) + 1
       \<and> EmulatorReadMemory k vga s Address0 Dest Size =
           Inr (s\<lparr>BaseAddress := Some m', Vga := v,
                  VgaCalls := VgaCalls s @ [VgaReadCall VgaAddress ActualSize]\<rparr>,
                arena_load m' (unat Address) (unat Size) @ drop (unat Size) Dest)
       \<and> fwd = take (unat ActualSize) (drop (unat VgaAddress - unat Address) Buffer)
       \<and> (\<not> (unat (ROM_AREA_START k) \<le> unat Address + unat Size
                \<and> unat Address < unat (ROM_AREA_END k))
          \<longrightarrow> EmulatorWriteMemory k vga s Address0 Buffer Size = Inr s1)
       \<and> (\<not> (unat (ROM_AREA_START k) \<le> unat Address + unat Size
                \<and> unat Address < unat (ROM_AREA_END k))
            \<and> unat base \<le> unat Address \<and> unat Address + unat Size \<le> unat limit + 1
            \<and> VgaGetVideoBaseAddress vga v1 = base \<and> VgaGetVideoLimitAddress vga v1 = limit
            \<and> VgaReadMemory vga v1 Address payload Size = (bs1, v2) \<and> length bs1 = unat Size
          \<longrightarrow> VgaAddress = Address \<and> ActualSize = Size \<and> fwd = payload
              \<and> EmulatorReadMemory k vga s1 Address0 Dest Size =
                   Inr (s1\<lparr>BaseAddress := Some (arena_store m (unat Address) bs1), Vga := v2,
                           VgaCalls := VgaCalls s1 @ [VgaReadCall Address Size]\<rparr>,
                        bs1 @ drop (unat Size) Dest))"
proof -
  have max32: "unat (MAX_ADDRESS k) < 2 ^ 32"
    using unsigned_less [of "MAX_ADDRESS k"] by simp
  have nowrap: "unat Address + unat Size < 2 ^ 32"
    using inb max32 by simp
  note w = overlap_within [OF nowrap pos lim bas reg V AS]
  have plen: "length payload = unat Size"
    using buf by (simp add: payload)
  have f: "fwd = take (unat ActualSize) (drop (unat VgaAddress - unat Address) Buffer)"
  proof -
    have "fwd = take (unat ActualSize) (drop (unat VgaAddress - unat Address) payload)"
      unfolding fwd using w(3) w(4) plen by (intro load_of_store) simp_all
    moreover have "unat ActualSize \<le> unat Size - (unat VgaAddress - unat Address)"
      using w(3) w(4) by arith
    ultimately show ?thesis
      by (simp add: payload drop_take min_absorb1)
  qed
  have r: "EmulatorReadMemory k vga s Address0 Dest Size =
           Inr (s\<lparr>BaseAddress := Some m', Vga := v,
                  VgaCalls := VgaCalls s @ [VgaReadCall VgaAddress ActualSize]\<rparr>,
                arena_load m' (unat Address) (unat Size) @ drop (unat Size) Dest)"
    by (rule read_through_vga [OF A inb arena dst base limit pos lim bas reg V AS dev m'])
  have wr: "EmulatorWriteMemory k vga s Address0 Buffer Size = Inr s1"
    if rom: "\<not> (unat (ROM_AREA_START k) \<le> unat Address + unat Size
                \<and> unat Address < unat (ROM_AREA_END k))"
    using write_through_vga [OF A inb rom arena buf base limit pos lim bas reg V AS f]
    by (simp add: s1 v1 payload)
  have rt: "VgaAddress = Address \<and> ActualSize = Size \<and> fwd = payload
              \<and> EmulatorReadMemory k vga s1 Address0 Dest Size =
                   Inr (s1\<lparr>BaseAddress := Some (arena_store m (unat Address) bs1), Vga := v2,
                           VgaCalls := VgaCalls s1 @ [VgaReadCall Address Size]\<rparr>,
                        bs1 @ drop (unat Size) Dest)"
    if rom: "\<not> (unat (ROM_AREA_START k) \<le> unat Address + unat Size
                \<and> unat Address < unat (ROM_AREA_END k))"
      and lo: "unat base \<le> unat Address" and hi: "unat Address + unat Size \<le> unat limit + 1"
      and base1: "VgaGetVideoBaseAddress vga v1 = base"
      and limit1: "VgaGetVideoLimitAddress vga v1 = limit"
      and dev1: "VgaReadMemory vga v1 Address payload Size = (bs1, v2)"
      and len: "length bs1 = unat Size"
  proof -
    note win = inside_window [OF nowrap pos lo hi lim]
    have va: "VgaAddress = Address"
      by (simp add: V win)
    have sz: "ActualSize = Size"
      by (simp add: AS va win)
    have fp: "fwd = payload"
      using f plen by (simp add: va sz payload)
    have v1': "v1 = VgaWriteMemory vga (Vga s) Address payload Size"
      by (simp add: v1 va sz fp)
    have s1': "s1 = s\<lparr>BaseAddress := Some (arena_store m (unat Address) payload), Vga := v1,
                     VgaCalls := VgaCalls s @ [VgaWriteCall Address Size payload]\<rparr>"
      by (simp add: s1 va sz fp)
    show ?thesis
      using write_then_read_inside(2) [OF A inb rom arena buf base limit pos lo hi lim
          payload v1' s1' base1 limit1 dev1 len dst] va sz fp
      by simp
  qed
  show ?thesis
    using w(1) w(2) r wr f rt by blast
qed

theorem vga_mirroring_order_witness:
  "unat (0xA0010 :: ulong) + unat (2 :: ulong) < unat (MAX_ADDRESS (sample_constants 0x100000))
   \<and> unat (0xA0000 :: ulong) \<le> unat (0xA0010 :: ulong)
   \<and> unat (0xA0010 :: ulong) + unat (2 :: ulong) \<le> unat (0xB7FFF :: ulong) + 1
   \<and> EmulatorReadMemory (sample_constants 0x100000) (sample_vga 0xA0000 0xB7FFF)
         (sample_machine False) 0xA0010 [0, 0] 2
       = Inr ((sample_machine False)
                \<lparr>BaseAddress := Some (arena_store (\<lambda>i. 0) 0xA0010 [0xFF, 0xFF]),
                 Vga := (\<lambda>i. 0xFF), VgaCalls := [VgaReadCall 0xA0010 2]\<rparr>,
              [0xFF, 0xFF])
   \<and> EmulatorWriteMemory (sample_constants 0x100000) (sample_vga 0xA0000 0xB7FFF)
         (sample_machine False) 0xA0010 [0xAB, 0xCD] 2
       = Inr ((sample_machine False)
                \<lparr>BaseAddress := Some (arena_store (\<lambda>i. 0) 0xA0010 [0xAB, 0xCD]),
                 Vga := arena_store (\<lambda>i. 0xFF) 0xA0010 [0x0B, 0x0D],
                 VgaCalls := [VgaWriteCall 0xA0010 2 [0xAB, 0xCD]]\<rparr>)
   \<and> EmulatorReadMemory (sample_constants 0x100000) (sample_vga 0xA0000 0xB7FFF)
         ((sample_machine False)
                \<lparr>BaseAddress := Some (arena_store (\<lambda>i. 0) 0xA0010 [0xAB, 0xCD]),
                 Vga := arena_store (\<lambda>i. 0xFF) 0xA0010 [0x0B, 0x0D],
                 VgaCalls := [VgaWriteCall 0xA0010 2 [0xAB, 0xCD]]\<rparr>) 0xA0010 [0, 0] 2
       = Inr ((sample_machine False)
                \<lparr>BaseAddress := Some (arena_store (\<lambda>i. 0) 0xA0010 [0x0B, 0x0D]),
                 Vga := arena_store (\<lambda>i. 0xFF) 0xA0010 [0x0B, 0x0D],
                 VgaCalls := [VgaWriteCall 0xA0010 2 [0xAB, 0xCD], VgaReadCall 0xA0010 2]\<rparr>,
              [0x0B, 0x0D])"
  using vga_mirroring_order [where k = "sample_constants 0x100000"
      and vga = "sample_vga 0xA0000 0xB7FFF" and s = "sample_machine False"
      and ?Address0.0 = "0xA0010" and Address = "0xA0010" and Size = 2
      and Buffer = "[0xAB, 0xCD]" and Dest = "[0, 0]" and m = "\<lambda>i. 0"
      and base = "0xA0000" and limit = "0xB7FFF" and VgaAddress = "0xA0010" and ActualSize = 2
      and bs = "[0xFF, 0xFF]" and v = "\<lambda>i. 0xFF"
      and m' = "arena_store (\<lambda>i. 0) 0xA0010 [0xFF, 0xFF]"
      and payload = "[0xAB, 0xCD]" and fwd = "[0xAB, 0xCD]"
      and ?v1.0 = "arena_store (\<lambda>i. 0xFF) 0xA0010 [0x0B, 0x0D]"
      and ?s1.0 = "(sample_machine False)
                \<lparr>BaseAddress := Some (arena_store (\<lambda>i. 0) 0xA0010 [0xAB, 0xCD]),
                 Vga := arena_store (\<lambda>i. 0xFF) 0xA0010 [0x0B, 0x0D],
                 VgaCalls := [VgaWriteCall 0xA0010 2 [0xAB, 0xCD]]\<rparr>"
      and ?bs1.0 = "[0x0B, 0x0D]" and ?v2.0 = "arena_store (\<lambda>i. 0xFF) 0xA0010 [0x0B, 0x0D]"]
  by (simp add: eval_defs)

text \<open>
  C4 as stated fails at the byte at the limit address, whichever way the limit is read.
  If the window is \<open>[0xA0000, 0xB8000)\<close> and the adapter reports \<open>0xB8000\<close>, the
  two-byte write at \<open>0xB7FFF\<close> hands the adapter two bytes, one of them outside the
  window. If the adapter reports the last address \<open>0xB7FFF\<close>, the one-byte read there
  does not call the adapter: it returns the arena's byte, 0, while the adapter holds
  \<open>0xFF\<close>.
\<close>

theorem vga_limit_byte_counterexample:
  "EmulatorWriteMemory (sample_constants 0x100000) (sample_vga 0xA0000 0xB8000)
         (sample_machine False) 0xB7FFF [0xA1, 0xA2] 2
       = Inr ((sample_machine False)
                \<lparr>BaseAddress := Some (arena_store (\<lambda>i. 0) 0xB7FFF [0xA1, 0xA2]),
                 Vga := arena_store (\<lambda>i. 0xFF) 0xB7FFF [0x01, 0x02],
                 VgaCalls := [VgaWriteCall 0xB7FFF 2 [0xA1, 0xA2]]\<rparr>)
   \<and> EmulatorReadMemory (sample_constants 0x100000) (sample_vga 0xA0000 0xB7FFF)
         (sample_machine False) 0xB7FFF [0x55] 1
       = Inr (sample_machine False, [0])
   \<and> Vga (sample_machine False) 0xB7FFF = 0xFF"
  by (simp add: run_defs eval_defs)

subsection \<open>The scenario of the specification\<close>

text \<open>
  C5, as the code has it. \<open>MAX_ADDRESS = 0x100000\<close>, A20 clear, the ROM area starts at
  \<open>0xF0000\<close>, and the adapter reports the base \<open>0xA0000\<close> and the limit \<open>0xB7FFF\<close>,
  the last address of the window. The write of four bytes at \<open>0xB7FFE\<close> stores all
  four and hands the adapter address \<open>0xB7FFE\<close>, length 2 and the first two bytes; a
  write of 16 bytes at \<open>0xF0000\<close> leaves any state as it is.
\<close>

theorem scenario_boundary_write:
  assumes "MAX_ADDRESS k = 0x100000" and "ROM_AREA_START k = 0xF0000"
    and "0xF0000 < ROM_AREA_END k"
    and "\<not> A20Line s" and "BaseAddress s = Some m"
    and "VgaGetVideoBaseAddress vga (Vga s) = 0xA0000"
    and "VgaGetVideoLimitAddress vga (Vga s) = 0xB7FFF"
  shows "EmulatorWriteMemory k vga s 0xB7FFE [p0, p1, p2, p3] 4 =
           Inr (s\<lparr>BaseAddress := Some (arena_store m 0xB7FFE [p0, p1, p2, p3]),
                  Vga := VgaWriteMemory vga (Vga s) 0xB7FFE [p0, p1] 2,
                  VgaCalls := VgaCalls s @ [VgaWriteCall 0xB7FFE 2 [p0, p1]]\<rparr>)
         \<and> EmulatorWriteMemory k vga s' 0xF0000 anything 16 = Inr s'"
proof
  have "EmulatorWriteMemory k vga s 0xB7FFE [p0, p1, p2, p3] 4 =
           Inr (s\<lparr>BaseAddress := Some (arena_store m (unat (0xB7FFE :: ulong)) (take (unat (4 :: ulong)) [p0, p1, p2, p3])),
                  Vga := VgaWriteMemory vga (Vga s) 0xB7FFE [p0, p1] 2,
                  VgaCalls := VgaCalls s @ [VgaWriteCall 0xB7FFE 2 [p0, p1]]\<rparr>)"
    by (rule write_through_vga [where Address = "0xB7FFE" and base = "0xA0000" and limit = "0xB7FFF"])
      (use assms in \<open>simp_all add: word_order_nat\<close>)
  then show "EmulatorWriteMemory k vga s 0xB7FFE [p0, p1, p2, p3] 4 =
           Inr (s\<lparr>BaseAddress := Some (arena_store m 0xB7FFE [p0, p1, p2, p3]),
                  Vga := VgaWriteMemory vga (Vga s) 0xB7FFE [p0, p1] 2,
                  VgaCalls := VgaCalls s @ [VgaWriteCall 0xB7FFE 2 [p0, p1]]\<rparr>)"
    by simp
next
  show "EmulatorWriteMemory k vga s' 0xF0000 anything 16 = Inr s'"
    using assms(1-3) by (simp add: EmulatorWriteMemory_def word_order_nat)
qed

theorem scenario_boundary_write_witness:
  "MAX_ADDRESS (sample_constants 0xFFFFF) = 0x100000
   \<and> ROM_AREA_START (sample_constants 0xFFFFF) = 0xF0000
   \<and> 0xF0000 < ROM_AREA_END (sample_constants 0xFFFFF)
   \<and> \<not> A20Line (sample_machine False)
   \<and> EmulatorWriteMemory (sample_constants 0xFFFFF) (sample_vga 0xA0000 0xB7FFF)
         (sample_machine False) 0xB7FFE [1, 2, 3, 4] 4
       = Inr ((sample_machine False)
                \<lparr>BaseAddress := Some (arena_store (\<lambda>i. 0) 0xB7FFE [1, 2, 3, 4]),
                 Vga := arena_store (\<lambda>i. 0xFF) 0xB7FFE [1, 2],
                 VgaCalls := [VgaWriteCall 0xB7FFE 2 [1, 2]]\<rparr>)
   \<and> EmulatorWriteMemory (sample_constants 0xFFFFF) (sample_vga 0xA0000 0xB7FFF)
         ((sample_machine False)
                \<lparr>BaseAddress := Some (arena_store (\<lambda>i. 0) 0xB7FFE [1, 2, 3, 4]),
                 Vga := arena_store (\<lambda>i. 0xFF) 0xB7FFE [1, 2],
                 VgaCalls := [VgaWriteCall 0xB7FFE 2 [1, 2]]\<rparr>)
         0xF0000 [9, 9, 9, 9, 9, 9, 9, 9, 9, 9, 9, 9, 9, 9, 9, 9] 16
       = Inr ((sample_machine False)
                \<lparr>BaseAddress := Some (arena_store (\<lambda>i. 0) 0xB7FFE [1, 2, 3, 4]),
                 Vga := arena_store (\<lambda>i. 0xFF) 0xB7FFE [1, 2],
                 VgaCalls := [VgaWriteCall 0xB7FFE 2 [1, 2]]\<rparr>)"
  using scenario_boundary_write [where k = "sample_constants 0xFFFFF"
      and vga = "sample_vga 0xA0000 0xB7FFF" and s = "sample_machine False"
      and m = "\<lambda>i. 0" and ?p0.0 = 1 and ?p1.0 = 2 and ?p2.0 = 3 and ?p3.0 = 4
      and s' = "(sample_machine False)
                \<lparr>BaseAddress := Some (arena_store (\<lambda>i. 0) 0xB7FFE [1, 2, 3, 4]),
                 Vga := arena_store (\<lambda>i. 0xFF) 0xB7FFE [1, 2],
                 VgaCalls := [VgaWriteCall 0xB7FFE 2 [1, 2]]\<rparr>"
      and anything = "[9, 9, 9, 9, 9, 9, 9, 9, 9, 9, 9, 9, 9, 9, 9, 9]"]
  by (simp add: sample_defs word_order_nat)

text \<open>
  C5 with the limit of the window \<open>[0xA0000, 0xB8000)\<close> reported as \<open>0xB8000\<close>: the
  adapter is handed three bytes, \<open>0xB7FFE\<close> to \<open>0xB8000\<close>.
\<close>

theorem scenario_limit_one_past_counterexample:
  "EmulatorWriteMemory (sample_constants 0x100000) (sample_vga 0xA0000 0xB8000)
        (sample_machine False) 0xB7FFE [1, 2, 3, 4] 4
     = Inr ((sample_machine False)
         \<lparr>BaseAddress := Some (arena_store (\<lambda>i. 0) 0xB7FFE [1, 2, 3, 4]),
          Vga := arena_store (\<lambda>i. 0xFF) 0xB7FFE [1, 2, 3],
          VgaCalls := [VgaWriteCall 0xB7FFE 3 [1, 2, 3]]\<rparr>)"
proof -
  have "EmulatorWriteMemory (sample_constants 0x100000) (sample_vga 0xA0000 0xB8000)
        (sample_machine False) 0xB7FFE [1, 2, 3, 4] 4
     = Inr ((sample_machine False)
         \<lparr>BaseAddress := Some (arena_store (\<lambda>i. 0) (unat (0xB7FFE :: ulong))
              (take (unat (4 :: ulong)) [1, 2, 3, 4])),
          Vga := VgaWriteMemory (sample_vga 0xA0000 0xB8000) (Vga (sample_machine False))
              0xB7FFE [1, 2, 3] 3,
          VgaCalls := VgaCalls (sample_machine False) @ [VgaWriteCall 0xB7FFE 3 [1, 2, 3]]\<rparr>)"
    by (rule write_through_vga [where Address = "0xB7FFE" and base = "0xA0000"
          and limit = "0xB8000"])
      (simp_all add: sample_defs word_order_nat)
  then show ?thesis
    by (simp add: sample_defs)
qed

subsection \<open>A20 masking\<close>

text \<open>
  C6. With the A20 gate clear, a read at an address and a read at the same address with
  bit 20 set are the same operation: same arena bytes, same data returned, same final
  state. The write path masks the address in the same way, before anything else.
\<close>

theorem a20_clear_bit20_ignored:
  assumes "\<not> A20Line s"
  shows "EmulatorReadMemory k vga s (addr OR push_bit 20 1) buf n
           = EmulatorReadMemory k vga s addr buf n
         \<and> EmulatorWriteMemory k vga s (addr OR push_bit 20 1) buf n
           = EmulatorWriteMemory k vga s addr buf n"
proof -
  have "(addr OR push_bit 20 1) AND NOT (push_bit 20 1) = addr AND NOT (push_bit 20 (1::ulong))"
    by (simp add: bit.conj_disj_distrib2)
  then show ?thesis
    using assms unfolding EmulatorReadMemory_def EmulatorWriteMemory_def by simp
qed


theorem a20_clear_bit20_ignored_witness:
  "\<not> A20Line (sample_machine False)
   \<and> EmulatorReadMemory (sample_constants 0x100000) (sample_vga 0xA0000 0xB7FFF)
        (sample_machine False) (0x234 OR push_bit 20 1) [0xFF] 1
       = EmulatorReadMemory (sample_constants 0x100000) (sample_vga 0xA0000 0xB7FFF)
           (sample_machine False) 0x234 [0xFF] 1
   \<and> EmulatorWriteMemory (sample_constants 0x100000) (sample_vga 0xA0000 0xB7FFF)
        (sample_machine False) (0x234 OR push_bit 20 1) [0xFF] 1
       = EmulatorWriteMemory (sample_constants 0x100000) (sample_vga 0xA0000 0xB7FFF)
           (sample_machine False) 0x234 [0xFF] 1"
  using a20_clear_bit20_ignored [of "sample_machine False" "sample_constants 0x100000"
      "sample_vga 0xA0000 0xB7FFF" "0x234" "[0xFF]" 1]
  by (simp add: sample_machine_def)

subsection \<open>Exceptions and the run state\<close>

text \<open>
  C7. For an exception number below 8, a stack frame that holds the slots \<open>STACK_IP\<close>
  and \<open>STACK_CS\<close>, and a fault site whose ten bytes lie inside the allocated arena,
  \<open>EmulatorException\<close> reads the instruction pointer and the code segment from the
  frame, shows one message made of the name of the exception in \<open>ExceptionName\<close>, the
  segment, the offset and the ten bytes of the arena at sixteen times the segment plus the
  offset, and sets \<open>VdmRunning\<close> to \<open>FALSE\<close>; nothing else changes. In a debug
  build an exception number of 8 or more fails the assertion.
\<close>

theorem exception_report:
  assumes num: "ExceptionNumber < 8"
    and ip: "STACK_IP k < length Stack" and cs: "STACK_CS k < length Stack"
    and arena: "BaseAddress s = Some m"
    and site: "TO_LINEAR (Stack ! STACK_CS k) (Stack ! STACK_IP k) + 10 \<le> unat (MAX_ADDRESS k)"
  shows "EmulatorException k s ExceptionNumber Stack =
           Inr (s\<lparr>Messages := Messages s @
                    [\<lparr>ReportName = ExceptionName ! unat ExceptionNumber,
                      ReportSegment = Stack ! STACK_CS k,
                      ReportOffset = Stack ! STACK_IP k,
                      ReportOpcode =
                        arena_load m (TO_LINEAR (Stack ! STACK_CS k) (Stack ! STACK_IP k)) 10\<rparr>],
                  VdmRunning := False\<rparr>)
         \<and> length (arena_load m (TO_LINEAR (Stack ! STACK_CS k) (Stack ! STACK_IP k)) 10) = 10
         \<and> unat ExceptionNumber < length ExceptionName
         \<and> (DBG k \<and> \<not> e < 8 \<longrightarrow> EmulatorException k s e Stack = Inl AssertionFailed)"
proof -
  have n: "unat ExceptionNumber < 8"
    using num by (simp add: word_less_nat_alt)
  then have t: "unat ExceptionNumber < length ExceptionName"
    by (simp add: ExceptionName_def)
  have "EmulatorException k s ExceptionNumber Stack =
           Inr (s\<lparr>Messages := Messages s @
                    [\<lparr>ReportName = ExceptionName ! unat ExceptionNumber,
                      ReportSegment = Stack ! STACK_CS k,
                      ReportOffset = Stack ! STACK_IP k,
                      ReportOpcode =
                        arena_load m (TO_LINEAR (Stack ! STACK_CS k) (Stack ! STACK_IP k)) 10\<rparr>],
                  VdmRunning := False\<rparr>)"
    using num ip cs arena site t by (simp add: EmulatorException_def Let_def)
  moreover have "length (arena_load m (TO_LINEAR (Stack ! STACK_CS k) (Stack ! STACK_IP k)) 10) = 10"
    by (simp add: arena_load_def)
  moreover have "DBG k \<and> \<not> e < 8 \<longrightarrow> EmulatorException k s e Stack = Inl AssertionFailed"
    by (simp add: EmulatorException_def)
  ultimately show ?thesis
    using t by simp
qed

theorem exception_report_witness:
  "(6 :: byte) < 8
   \<and> TO_LINEAR 0x2000 0x0100 + 10 \<le> unat (MAX_ADDRESS (sample_constants 0x100000))
   \<and> EmulatorException (sample_constants 0x100000) (sample_machine False) 6 [0, 0x0100, 0x2000, 0]
       = Inr ((sample_machine False)
           \<lparr>Messages := [\<lparr>ReportName = ''Invalid Opcode'', ReportSegment = 0x2000,
                          ReportOffset = 0x0100,
                          ReportOpcode = [0, 0, 0, 0, 0, 0, 0, 0, 0, 0]\<rparr>],
            VdmRunning := False\<rparr>)
   \<and> DBG (sample_constants 0x100000)
   \<and> EmulatorException (sample_constants 0x100000) (sample_machine False) 8 [0, 0x0100, 0x2000, 0]
       = Inl AssertionFailed"
  using exception_report [where ExceptionNumber = 6 and k = "sample_constants 0x100000"
      and Stack = "[0, 0x0100, 0x2000, 0]" and s = "sample_machine False" and m = "\<lambda>i. 0"
      and e = 8]
  by (simp add: sample_defs TO_LINEAR_def ExceptionName_def arena_load_def upt_rec
      word_order_nat)

text \<open>
  C3, as the code has it. Whenever \<open>EmulatorException\<close> returns, \<open>VdmRunning\<close> is
  \<open>FALSE\<close>, and it stays \<open>FALSE\<close> through every sequence of calls of the entry
  points of the file; \<open>VDDTerminateVDM\<close> is the other way to clear it. \<open>EmulatorStep\<close>
  does not look at \<open>VdmRunning\<close>: it hands the context to \<open>Fast486StepInto\<close> in every
  state.
\<close>

theorem halted_is_final:
  "(EmulatorException k s e st = Inr s1 \<and> perform_all k vga cpu s1 cs = Inr s2
      \<longrightarrow> \<not> VdmRunning s1 \<and> \<not> VdmRunning s2)
   \<and> (\<not> VdmRunning h \<and> perform_all k vga cpu h cs = Inr h' \<longrightarrow> \<not> VdmRunning h')
   \<and> EmulatorStep cpu s = s\<lparr>EmulatorContext := Fast486StepInto cpu (EmulatorContext s)\<rparr>
   \<and> VDDTerminateVDM s = s\<lparr>VdmRunning := False\<rparr>"
proof -
  have "\<not> VdmRunning s1 \<and> \<not> VdmRunning s2"
    if "EmulatorException k s e st = Inr s1" and "perform_all k vga cpu s1 cs = Inr s2"
    using that exception_halts [of k s e st s1] perform_all_keeps_halted [of k vga cpu s1 cs s2]
    by simp
  moreover have "\<not> VdmRunning h'"
    if "\<not> VdmRunning h" and "perform_all k vga cpu h cs = Inr h'"
    using that perform_all_keeps_halted [of k vga cpu h cs h'] by simp
  ultimately show ?thesis
    by (auto simp: EmulatorStep_def VDDTerminateVDM_def)
qed

theorem halted_is_final_witness:
  "EmulatorException (sample_constants 0x100000) (sample_machine False) 6 [0, 0x0100, 0x2000, 0]
       = Inr ((sample_machine False)
           \<lparr>Messages := [\<lparr>ReportName = ''Invalid Opcode'', ReportSegment = 0x2000,
                          ReportOffset = 0x0100,
                          ReportOpcode = [0, 0, 0, 0, 0, 0, 0, 0, 0, 0]\<rparr>],
            VdmRunning := False\<rparr>)
   \<and> perform_all (sample_constants 0x100000) (sample_vga 0xA0000 0xB7FFF) sample_engine
        ((sample_machine False)
           \<lparr>Messages := [\<lparr>ReportName = ''Invalid Opcode'', ReportSegment = 0x2000,
                          ReportOffset = 0x0100,
                          ReportOpcode = [0, 0, 0, 0, 0, 0, 0, 0, 0, 0]\<rparr>],
            VdmRunning := False\<rparr>)
        [Step, SetA20 True, Step]
       = Inr ((sample_machine False)
           \<lparr>Messages := [\<lparr>ReportName = ''Invalid Opcode'', ReportSegment = 0x2000,
                          ReportOffset = 0x0100,
                          ReportOpcode = [0, 0, 0, 0, 0, 0, 0, 0, 0, 0]\<rparr>],
            VdmRunning := False, EmulatorContext := 2, A20Line := True\<rparr>)
   \<and> \<not> VdmRunning ((sample_machine False)
           \<lparr>Messages := [\<lparr>ReportName = ''Invalid Opcode'', ReportSegment = 0x2000,
                          ReportOffset = 0x0100,
                          ReportOpcode = [0, 0, 0, 0, 0, 0, 0, 0, 0, 0]\<rparr>],
            VdmRunning := False, EmulatorContext := 2, A20Line := True\<rparr>)"
  using halted_is_final [where k = "sample_constants 0x100000"
      and s = "sample_machine False" and e = 6 and st = "[0, 0x0100, 0x2000, 0]"
      and ?s1.0 = "(sample_machine False)
           \<lparr>Messages := [\<lparr>ReportName = ''Invalid Opcode'', ReportSegment = 0x2000,
                          ReportOffset = 0x0100,
                          ReportOpcode = [0, 0, 0, 0, 0, 0, 0, 0, 0, 0]\<rparr>],
            VdmRunning := False\<rparr>"
      and vga = "sample_vga 0xA0000 0xB7FFF" and cpu = sample_engine
      and cs = "[Step, SetA20 True, Step]"
      and ?s2.0 = "(sample_machine False)
           \<lparr>Messages := [\<lparr>ReportName = ''Invalid Opcode'', ReportSegment = 0x2000,
                          ReportOffset = 0x0100,
                          ReportOpcode = [0, 0, 0, 0, 0, 0, 0, 0, 0, 0]\<rparr>],
            VdmRunning := False, EmulatorContext := 2, A20Line := True\<rparr>"]
  by (simp add: sample_defs EmulatorException_def TO_LINEAR_def ExceptionName_def
      arena_load_def upt_rec word_order_nat EmulatorStep_def EmulatorSetA20_def Let_def)

text \<open>
  C3 as stated fails: after the invalid-opcode exception has halted the sample machine, a
  call of \<open>EmulatorStep\<close> executes one more instruction (the engine's count goes from
  0 to 1).
\<close>

theorem step_after_halt_counterexample:
  "EmulatorException (sample_constants 0x100000) (sample_machine False) 6 [0, 0x0100, 0x2000, 0]
       = Inr ((sample_machine False)
           \<lparr>Messages := [\<lparr>ReportName = ''Invalid Opcode'', ReportSegment = 0x2000,
                          ReportOffset = 0x0100,
                          ReportOpcode = [0, 0, 0, 0, 0, 0, 0, 0, 0, 0]\<rparr>],
            VdmRunning := False\<rparr>)
   \<and> EmulatorContext (EmulatorStep sample_engine ((sample_machine False)
           \<lparr>Messages := [\<lparr>ReportName = ''Invalid Opcode'', ReportSegment = 0x2000,
                          ReportOffset = 0x0100,
                          ReportOpcode = [0, 0, 0, 0, 0, 0, 0, 0, 0, 0]\<rparr>],
            VdmRunning := False\<rparr>)) = 1
   \<and> EmulatorContext ((sample_machine False)
           \<lparr>Messages := [\<lparr>ReportName = ''Invalid Opcode'', ReportSegment = 0x2000,
                          ReportOffset = 0x0100,
                          ReportOpcode = [0, 0, 0, 0, 0, 0, 0, 0, 0, 0]\<rparr>],
            VdmRunning := False\<rparr>) = 0"
  by (simp add: sample_defs EmulatorException_def TO_LINEAR_def ExceptionName_def
      arena_load_def upt_rec word_order_nat EmulatorStep_def Let_def)

subsection \<open>Initialisation\<close>

text \<open>
  C8. \<open>EmulatorInitialize\<close> returns \<open>FALSE\<close> exactly when the allocation of the
  arena fails, whatever \<open>VgaInitialize\<close> returns; on failure only \<open>BaseAddress\<close> has
  been assigned (\<open>NULL\<close>); on success every byte of the arena is zero.
\<close>

theorem initialize_result:
  "snd (EmulatorInitialize k cpu vi heap s) = heap
   \<and> (\<not> heap \<longrightarrow> fst (EmulatorInitialize k cpu vi heap s) = s\<lparr>BaseAddress := None\<rparr>)
   \<and> (heap \<longrightarrow> BaseAddress (fst (EmulatorInitialize k cpu vi heap s)) = Some (\<lambda>i. 0))
   \<and> arena_load (\<lambda>i. 0) 0 (unat (MAX_ADDRESS k)) = replicate (unat (MAX_ADDRESS k)) 0"
proof -
  have "arena_load (\<lambda>i. 0) 0 n = replicate n 0" for n
    by (simp add: arena_load_def map_replicate_const)
  then show ?thesis
    by (simp add: EmulatorInitialize_def HeapAlloc_zeroed_def Let_def)
qed

theorem initialize_result_witness:
  "EmulatorInitialize (sample_constants 0x100000) sample_engine (\<lambda>v. (False, v)) True
       (initial_state 7 (\<lambda>i. 0xFF))
     = ((initial_state 7 (\<lambda>i. 0xFF))\<lparr>BaseAddress := Some (\<lambda>i. 0), EmulatorContext := 0\<rparr>, True)
   \<and> EmulatorInitialize (sample_constants 0x100000) sample_engine (\<lambda>v. (True, v)) False
       (initial_state 7 (\<lambda>i. 0xFF))
     = ((initial_state 7 (\<lambda>i. 0xFF))\<lparr>BaseAddress := None\<rparr>, False)"
  using initialize_result [where k = "sample_constants 0x100000" and cpu = sample_engine
      and vi = "\<lambda>v. (False, v)" and heap = True and s = "initial_state 7 (\<lambda>i. 0xFF)"]
    initialize_result [where k = "sample_constants 0x100000" and cpu = sample_engine
      and vi = "\<lambda>v. (True, v)" and heap = False and s = "initial_state 7 (\<lambda>i. 0xFF)"]
  by (simp add: EmulatorInitialize_def HeapAlloc_zeroed_def Let_def sample_defs
      initial_state_def)

subsection \<open>The A20 line\<close>

text \<open>
  C9. A memory read or write that returns leaves \<open>A20Line\<close> and \<open>VdmRunning\<close> as
  they were. \<open>EmulatorSetA20\<close> assigns the given value to \<open>A20Line\<close> and changes
  nothing else. No other entry point changes \<open>A20Line\<close>, \<open>EmulatorInitialize\<close>
  included.
\<close>

theorem a20_frame:
  "(EmulatorReadMemory k vga s a b n = Inr r
      \<longrightarrow> A20Line (fst r) = A20Line s \<and> VdmRunning (fst r) = VdmRunning s)
   \<and> (EmulatorWriteMemory k vga s a b n = Inr s1
      \<longrightarrow> A20Line s1 = A20Line s \<and> VdmRunning s1 = VdmRunning s)
   \<and> EmulatorSetA20 Enabled s = s\<lparr>A20Line := Enabled\<rparr>
   \<and> (perform k vga cpu s c = Inr s2 \<and> (\<forall>e. c \<noteq> SetA20 e) \<longrightarrow> A20Line s2 = A20Line s)
   \<and> A20Line (fst (EmulatorInitialize k cpu vi heap s)) = A20Line s"
  using read_frame [of k vga s a b n r] write_frame [of k vga s a b n s1]
    perform_keeps_a20 [of k vga cpu s c s2] initialize_keeps_a20 [of k cpu vi heap s]
  by (auto simp: EmulatorSetA20_def)

theorem a20_frame_witness:
  "EmulatorReadMemory (sample_constants 0x100000) (sample_vga 0xA0000 0xB7FFF)
        (sample_machine True) 0x100010 [0x55, 0x55] 2
     = Inr (sample_machine True, [0x55, 0x55])
   \<and> EmulatorWriteMemory (sample_constants 0x100000) (sample_vga 0xA0000 0xB7FFF)
        (sample_machine True) 0x1000 [0x55, 0x66] 2
     = Inr ((sample_machine True)\<lparr>BaseAddress := Some (arena_store (\<lambda>i. 0) 0x1000 [0x55, 0x66])\<rparr>)
   \<and> A20Line ((sample_machine True)\<lparr>BaseAddress := Some (arena_store (\<lambda>i. 0) 0x1000 [0x55, 0x66])\<rparr>)
   \<and> VdmRunning ((sample_machine True)\<lparr>BaseAddress := Some (arena_store (\<lambda>i. 0) 0x1000 [0x55, 0x66])\<rparr>)
   \<and> EmulatorSetA20 False (sample_machine True) = sample_machine False
   \<and> perform (sample_constants 0x100000) (sample_vga 0xA0000 0xB7FFF) sample_engine
        (sample_machine True) Step = Inr ((sample_machine True)\<lparr>EmulatorContext := 1\<rparr>)"
  using a20_frame [where k = "sample_constants 0x100000" and vga = "sample_vga 0xA0000 0xB7FFF"
      and s = "sample_machine True" and a = "0x1000" and b = "[0x55, 0x66]" and n = 2
      and ?s1.0 = "(sample_machine True)\<lparr>BaseAddress := Some (arena_store (\<lambda>i. 0) 0x1000 [0x55, 0x66])\<rparr>"
      and cpu = sample_engine and c = Step and Enabled = False
      and ?s2.0 = "(sample_machine True)\<lparr>EmulatorContext := 1\<rparr>"]
  by (simp add: run_defs sample_defs word_order_nat EmulatorStep_def EmulatorSetA20_def)

text \<open>
  C10. \<open>A20Line\<close> starts as \<open>FALSE\<close>, \<open>EmulatorInitialize\<close> leaves it so, and it
  stays so through every sequence of calls without \<open>EmulatorSetA20(TRUE)\<close>. In such a
  state a read or a write at an address is the read or write at that address with bit 20
  cleared; for an address in the second megabyte that is the address minus \<open>0x100000\<close>.
\<close>

theorem a20_initially_clear:
  assumes init: "EmulatorInitialize k cpu vi heap (initial_state c0 v0) = (s0, ok)"
    and nocall: "SetA20 True \<notin> set cs"
    and run: "perform_all k vga cpu s0 cs = Inr s"
  shows "\<not> A20Line (initial_state c0 v0) \<and> \<not> A20Line s0 \<and> \<not> A20Line s
       \<and> EmulatorReadMemory k vga s addr buf n
           = EmulatorReadMemory k vga s (addr AND NOT (push_bit 20 1)) buf n
       \<and> EmulatorWriteMemory k vga s addr buf n
           = EmulatorWriteMemory k vga s (addr AND NOT (push_bit 20 1)) buf n
       \<and> (0x100000 \<le> addr \<and> addr < 0x200000
            \<longrightarrow> addr AND NOT (push_bit 20 1) = addr - 0x100000)"
proof -
  have i: "\<not> A20Line (initial_state c0 v0)"
    by (simp add: initial_state_def)
  have "A20Line s0 = A20Line (initial_state c0 v0)"
    using initialize_keeps_a20 [of k cpu vi heap "initial_state c0 v0"] init by simp
  then have z: "\<not> A20Line s0"
    using i by simp
  have c: "\<not> A20Line s"
    using perform_all_keeps_a20_clear [OF run nocall z] .
  show ?thesis
    using i z c clear_gate_masks [OF c, of k vga addr buf n] wrap_at_1MiB [of addr]
    by simp
qed

theorem a20_initially_clear_witness:
  "EmulatorInitialize (sample_constants 0x100000) sample_engine (\<lambda>v. (True, v)) True
       (initial_state 7 (\<lambda>i. 0xFF))
     = ((initial_state 7 (\<lambda>i. 0xFF))\<lparr>BaseAddress := Some (\<lambda>i. 0), EmulatorContext := 0\<rparr>, True)
   \<and> SetA20 True \<notin> set [WriteMemory 0x100000 [0xAA] 1, Step]
   \<and> perform_all (sample_constants 0x100000) (sample_vga 0xA0000 0xB7FFF) sample_engine
        ((initial_state 7 (\<lambda>i. 0xFF))\<lparr>BaseAddress := Some (\<lambda>i. 0), EmulatorContext := 0\<rparr>)
        [WriteMemory 0x100000 [0xAA] 1, Step]
     = Inr ((initial_state 7 (\<lambda>i. 0xFF))
          \<lparr>BaseAddress := Some (arena_store (\<lambda>i. 0) 0 [0xAA]), EmulatorContext := 1\<rparr>)
   \<and> EmulatorReadMemory (sample_constants 0x100000) (sample_vga 0xA0000 0xB7FFF)
        ((initial_state 7 (\<lambda>i. 0xFF))
          \<lparr>BaseAddress := Some (arena_store (\<lambda>i. 0) 0 [0xAA]), EmulatorContext := 1\<rparr>)
        0x100000 [0] 1
     = Inr ((initial_state 7 (\<lambda>i. 0xFF))
          \<lparr>BaseAddress := Some (arena_store (\<lambda>i. 0) 0 [0xAA]), EmulatorContext := 1\<rparr>, [0xAA])"
  using a20_initially_clear [where k = "sample_constants 0x100000" and cpu = sample_engine
      and vi = "\<lambda>v. (True, v)" and heap = True and ?c0.0 = 7 and ?v0.0 = "\<lambda>i. 0xFF"
      and ?s0.0 = "(initial_state 7 (\<lambda>i. 0xFF))\<lparr>BaseAddress := Some (\<lambda>i. 0), EmulatorContext := 0\<rparr>"
      and ok = True and cs = "[WriteMemory 0x100000 [0xAA] 1, Step]"
      and vga = "sample_vga 0xA0000 0xB7FFF"
      and s = "(initial_state 7 (\<lambda>i. 0xFF))
          \<lparr>BaseAddress := Some (arena_store (\<lambda>i. 0) 0 [0xAA]), EmulatorContext := 1\<rparr>"
      and addr = "0x100000" and buf = "[0]" and n = 1]
  by (simp add: run_defs eval_defs initial_state_def EmulatorInitialize_def
      HeapAlloc_zeroed_def EmulatorStep_def)

end
